theory Spec2Isabelle
  imports Main
begin

section \<open>JavaScript strings and character classes\<close>

text \<open>
  A JavaScript string is a sequence of UTF-16 code units. A code unit is modelled by its
  numeric value; every predicate below is a range test, so nothing depends on the upper
  bound \<open>65535\<close>. String literals of the source are written \<open>js ''...''\<close>.
\<close>

type_synonym code_unit = nat
type_synonym jsstring = "code_unit list"

definition js :: "string \<Rightarrow> jsstring" where
  "js = map of_char"

text \<open>The regular-expression class \<^verbatim>\<open>\d\<close> (and \<^verbatim>\<open>[0-9]\<close>).\<close>

definition isDigit :: "code_unit \<Rightarrow> bool" where
  "isDigit c \<longleftrightarrow> 48 \<le> c \<and> c \<le> 57"

text \<open>
  The class \<^verbatim>\<open>\s\<close>: the WhiteSpace and LineTerminator code points of ECMAScript
  (TAB, LF, VT, FF, CR, SP, NBSP, U+1680, U+2000..U+200A, U+2028, U+2029, U+202F, U+205F,
  U+3000, U+FEFF). \<^verbatim>\<open>String.prototype.trim\<close> strips the same set.
\<close>

definition isWhitespace :: "code_unit \<Rightarrow> bool" where
  "isWhitespace c \<longleftrightarrow>
     c = 9 \<or> c = 10 \<or> c = 11 \<or> c = 12 \<or> c = 13 \<or> c = 32 \<or> c = 160 \<or> c = 5760 \<or>
     (8192 \<le> c \<and> c \<le> 8202) \<or> c = 8232 \<or> c = 8233 \<or> c = 8239 \<or> c = 8287 \<or>
     c = 12288 \<or> c = 65279"

text \<open>The line terminators, which \<^verbatim>\<open>.\<close> does not match: LF, CR, U+2028, U+2029.\<close>

definition isLineTerminator :: "code_unit \<Rightarrow> bool" where
  "isLineTerminator c \<longleftrightarrow> c = 10 \<or> c = 13 \<or> c = 8232 \<or> c = 8233"

text \<open>\<^verbatim>\<open>s.trim()\<close>\<close>

definition trim :: "jsstring \<Rightarrow> jsstring" where
  "trim s = rev (dropWhile isWhitespace (rev (dropWhile isWhitespace s)))"

text \<open>\<^verbatim>\<open>s.substr(start, len)\<close> for non-negative \<open>start\<close> and \<open>len\<close>.\<close>

definition substr :: "jsstring \<Rightarrow> nat \<Rightarrow> nat \<Rightarrow> jsstring" where
  "substr s start len = take len (drop start s)"

text \<open>
  \<^verbatim>\<open>s.replace(/C/g, '')\<close> for a one-character class \<open>C\<close>: every code unit in the
  class is deleted.
\<close>

definition replace_all_empty :: "(code_unit \<Rightarrow> bool) \<Rightarrow> jsstring \<Rightarrow> jsstring" where
  "replace_all_empty cls s = filter (\<lambda>c. \<not> cls c) s"

section \<open>Regular expressions\<close>

text \<open>
  The regular expressions of the source use character classes, concatenation, alternation
  and repetition only (no captures, look-around or back-references), so
  \<^verbatim>\<open>RegExp.prototype.test\<close> decides membership in the expression's language. The
  matcher below is that membership test: a concatenation matches when some split of the
  string matches both parts, a star when the string is empty or some non-empty prefix
  matches the body and the rest matches the star again.
\<close>

datatype regex =
    Eps
  | Cls "code_unit \<Rightarrow> bool"
  | Seq regex regex
  | Alt regex regex
  | Star regex

fun matches :: "regex \<Rightarrow> jsstring \<Rightarrow> bool" where
  "matches Eps s = (s = [])"
| "matches (Cls p) s = (case s of [c] \<Rightarrow> p c | _ \<Rightarrow> False)"
| "matches (Alt a b) s = (if matches a s then True else matches b s)"
| "matches (Seq a b) s =
     list_ex (\<lambda>i. if matches a (take i s) then matches b (drop i s) else False)
       [0..<Suc (length s)]"
| "matches (Star a) s =
     (if s = [] then True
      else list_ex (\<lambda>i. if matches a (take i s) then matches (Star a) (drop i s) else False)
             [1..<Suc (length s)])"

text \<open>
  The equation of the star calls itself under a binder, so the equations are unfolded by
  hand in proofs.
\<close>

declare matches.simps [simp del]

text \<open>A literal character, \<^verbatim>\<open>r+\<close>, \<^verbatim>\<open>r?\<close> and \<^verbatim>\<open>r{n}\<close>.\<close>

definition Chr :: "char \<Rightarrow> regex" where
  "Chr c = Cls (\<lambda>u. u = of_char c)"

definition Plus :: "regex \<Rightarrow> regex" where
  "Plus r = Seq r (Star r)"

definition Opt :: "regex \<Rightarrow> regex" where
  "Opt r = Alt r Eps"

fun Rep :: "nat \<Rightarrow> regex \<Rightarrow> regex" where
  "Rep 0 r = Eps"
| "Rep (Suc n) r = Seq r (Rep n r)"

text \<open>
  \<^verbatim>\<open>/^r$/.test(s)\<close> (no \<^verbatim>\<open>m\<close> flag: the anchors are the two ends of the input) and
  \<^verbatim>\<open>/r/.test(s)\<close>, which looks for a match anywhere in the string.
\<close>

definition test_anchored :: "regex \<Rightarrow> jsstring \<Rightarrow> bool" where
  "test_anchored r s = matches r s"

definition test_search :: "regex \<Rightarrow> jsstring \<Rightarrow> bool" where
  "test_search r s = matches (Seq (Star (Cls (\<lambda>_. True))) (Seq r (Star (Cls (\<lambda>_. True))))) s"

section \<open>Numbers and \<^verbatim>\<open>parseInt\<close>\<close>

text \<open>
  The numbers of the validators are integers or \<^verbatim>\<open>NaN\<close> (what \<^verbatim>\<open>parseInt\<close> returns
  when no digit can be read). Every comparison with \<^verbatim>\<open>NaN\<close> is false, and arithmetic
  on it gives \<^verbatim>\<open>NaN\<close>. The remainder \<^verbatim>\<open>%\<close> takes the sign of the dividend.
\<close>

datatype number = Num int | NaN

fun num_add :: "number \<Rightarrow> number \<Rightarrow> number" where
  "num_add (Num a) (Num b) = Num (a + b)"
| "num_add _ _ = NaN"

fun num_sub :: "number \<Rightarrow> number \<Rightarrow> number" where
  "num_sub (Num a) (Num b) = Num (a - b)"
| "num_sub _ _ = NaN"

fun num_mul :: "number \<Rightarrow> number \<Rightarrow> number" where
  "num_mul (Num a) (Num b) = Num (a * b)"
| "num_mul _ _ = NaN"

fun num_rem :: "number \<Rightarrow> number \<Rightarrow> number" where
  "num_rem (Num a) (Num b) = (if b = 0 then NaN else Num (sgn a * (\<bar>a\<bar> mod \<bar>b\<bar>)))"
| "num_rem _ _ = NaN"

fun num_lt :: "number \<Rightarrow> number \<Rightarrow> bool" where
  "num_lt (Num a) (Num b) = (a < b)"
| "num_lt _ _ = False"

fun num_gt :: "number \<Rightarrow> number \<Rightarrow> bool" where
  "num_gt (Num a) (Num b) = (a > b)"
| "num_gt _ _ = False"

fun num_eq :: "number \<Rightarrow> number \<Rightarrow> bool" where
  "num_eq (Num a) (Num b) = (a = b)"
| "num_eq _ _ = False"

definition decimal_value :: "jsstring \<Rightarrow> int" where
  "decimal_value ds = foldl (\<lambda>a c. 10 * a + (int c - 48)) 0 ds"

text \<open>
  \<^verbatim>\<open>parseInt(s, 10)\<close>: skip leading white space, read an optional sign, then the longest
  run of decimal digits; \<^verbatim>\<open>NaN\<close> when that run is empty. The source also calls
  \<^verbatim>\<open>parseInt(s)\<close> without a radix, which differs only on a \<^verbatim>\<open>0x\<close> prefix; those
  calls come after the argument matched \<^verbatim>\<open>\d{2}\<close>.
\<close>

definition parseInt :: "jsstring \<Rightarrow> number" where
  "parseInt s =
     (let t = dropWhile isWhitespace s;
          neg = (case t of c # _ \<Rightarrow> c = 45 | [] \<Rightarrow> False);
          u = (case t of c # r \<Rightarrow> if c = 43 \<or> c = 45 then r else t | [] \<Rightarrow> t);
          ds = takeWhile isDigit u
      in if ds = [] then NaN else Num ((if neg then - 1 else 1) * decimal_value ds))"

text \<open>\<^verbatim>\<open>s.charAt(i)\<close>: the empty string when \<open>i\<close> is out of range.\<close>

definition charAt :: "jsstring \<Rightarrow> int \<Rightarrow> jsstring" where
  "charAt s i = (if 0 \<le> i \<and> i < int (length s) then [s ! nat i] else [])"

text \<open>\<^verbatim>\<open>parts.join(sep)\<close>\<close>

fun join :: "jsstring \<Rightarrow> jsstring list \<Rightarrow> jsstring" where
  "join sep [] = []"
| "join sep [x] = x"
| "join sep (x # y # zs) = x @ sep @ join sep (y # zs)"

text \<open>\<^verbatim>\<open>s.split(c)\<close> for a one-character separator.\<close>

fun split_on :: "code_unit \<Rightarrow> jsstring \<Rightarrow> jsstring list" where
  "split_on c [] = [[]]"
| "split_on c (x # xs) =
     (if x = c then [] # split_on c xs
      else (case split_on c xs of p # ps \<Rightarrow> (x # p) # ps | [] \<Rightarrow> [[x]]))"

section \<open>Formatters of the payment step\<close>

text \<open>
  \<^verbatim>\<open>s.match(/.{1,4}/g) || []\<close>: scanning from the left, each match takes as many code
  units as it can, up to four, none of them a line terminator; at a line terminator no
  match starts and the scan moves on by one unit. No match at all gives \<^verbatim>\<open>null\<close>,
  replaced by the empty array.
\<close>

function match_dot_1_4 :: "jsstring \<Rightarrow> jsstring list" where
  "match_dot_1_4 s =
     (if s = [] then []
      else (let m = takeWhile (\<lambda>c. \<not> isLineTerminator c) (take 4 s) in
            if m = [] then match_dot_1_4 (tl s)
            else m # match_dot_1_4 (drop (length m) s)))"
  by pat_completeness auto
termination
  by (relation "measure length") (auto simp: Let_def)

declare match_dot_1_4.simps [simp del]

text \<open>
  \<^verbatim>\<open>
  const formatCardNumber = (value: string): string => {
    const cleanValue = value.replace(/\s/g, '').replace(/[^0-9]/g, '');
    const chunks = cleanValue.match(/.{1,4}/g) || [];
    return chunks.join(' ').substr(0, 19); // Max 16 digits + 3 spaces
  };
  \<close>
\<close>

definition formatCardNumber :: "jsstring \<Rightarrow> jsstring" where
  "formatCardNumber v =
     (let cleanValue = replace_all_empty (\<lambda>c. \<not> isDigit c) (replace_all_empty isWhitespace v);
          chunks = match_dot_1_4 cleanValue
      in substr (join (js '' '') chunks) 0 19)"

section \<open>Formatters of the payment step\<close>

text \<open>
  \<^verbatim>\<open>
  const formatExpiryDate = (value: string): string => {
    const cleanValue = value.replace(/\D/g, '');
    if (cleanValue.length >= 2) {
      return cleanValue.substr(0, 2) + '/' + cleanValue.substr(2, 2);
    }
    return cleanValue;
  };
  \<close>
\<close>

definition formatExpiryDate :: "jsstring \<Rightarrow> jsstring" where
  "formatExpiryDate v =
     (let cleanValue = replace_all_empty (\<lambda>c. \<not> isDigit c) v in
      if length cleanValue \<ge> 2
      then substr cleanValue 0 2 @ js ''/'' @ substr cleanValue 2 2
      else cleanValue)"

text \<open>
  The expiry mask as the specification words it: strip the non-digits; with at least two
  digits left, put a slash after the second one; otherwise return the digits.
\<close>

definition expiry_mask_spec :: "jsstring \<Rightarrow> jsstring" where
  "expiry_mask_spec v =
     (let ds = filter isDigit v in
      if length ds \<ge> 2 then take 2 ds @ js ''/'' @ drop 2 ds else ds)"

text \<open>
  The Luhn check of \<^verbatim>\<open>isValidCardNumber\<close>:
  \<^verbatim>\<open>
  const cleanNumber = cardNumber.replace(/\s/g, '');
  if (!/^\d+$/.test(cleanNumber) || cleanNumber.length < 13 || cleanNumber.length > 19) {
    return false;
  }
  let sum = 0;
  let shouldDouble = false;
  for (let i = cleanNumber.length - 1; i >= 0; i--) {
    let digit = parseInt(cleanNumber.charAt(i), 10);
    if (shouldDouble) {
      digit *= 2;
      if (digit > 9) {
        digit -= 9;
      }
    }
    sum += digit;
    shouldDouble = !shouldDouble;
  }
  return (sum % 10) === 0;
  \<close>
  The loop is a function of its variables \<open>i\<close>, \<open>sum\<close> (written \<open>sm\<close>) and
  \<open>shouldDouble\<close>.
\<close>

function luhn_loop :: "jsstring \<Rightarrow> int \<Rightarrow> number \<Rightarrow> bool \<Rightarrow> number" where
  "luhn_loop cleanNumber i sm shouldDouble =
     (if i \<ge> 0 then
        (let digit = parseInt (charAt cleanNumber i);
             digit = (if shouldDouble
                      then (let digit = num_mul digit (Num 2) in
                            if num_gt digit (Num 9) then num_sub digit (Num 9) else digit)
                      else digit)
         in luhn_loop cleanNumber (i - 1) (num_add sm digit) (\<not> shouldDouble))
      else sm)"
  by pat_completeness auto
termination
  by (relation "measure (\<lambda>(s, i, sm, sd). nat (i + 1))") auto

declare luhn_loop.simps [simp del]

definition isValidCardNumber :: "jsstring \<Rightarrow> bool" where
  "isValidCardNumber cardNumber =
     (let cleanNumber = replace_all_empty isWhitespace cardNumber in
      if \<not> test_anchored (Plus (Cls isDigit)) cleanNumber \<or> length cleanNumber < 13 \<or>
         length cleanNumber > 19
      then False
      else num_eq
             (num_rem (luhn_loop cleanNumber (int (length cleanNumber) - 1) (Num 0) False)
                (Num 10))
             (Num 0))"

section \<open>Password strength\<close>

text \<open>
  \<^verbatim>\<open>
  const PASSWORD_CRITERIA = [
    { id: 'length', label: 'At least 8 characters', test: (pwd: string) => pwd.length >= 8 },
    { id: 'uppercase', label: 'One uppercase letter', test: (pwd: string) => /[A-Z]/.test(pwd) },
    { id: 'lowercase', label: 'One lowercase letter', test: (pwd: string) => /[a-z]/.test(pwd) },
    { id: 'number', label: 'One number', test: (pwd: string) => /\d/.test(pwd) },
    { id: 'special', label: 'One special character',
      test: (pwd: string) => /[!@#$%^&*(),.?\":{}|<>]/.test(pwd) },
  ];
  \<close>
  Only the \<open>test\<close> of each criterion is used by the score. The double quote of the last
  class is the character with code \<open>0x22\<close>.
\<close>

definition Range :: "char \<Rightarrow> char \<Rightarrow> regex" where
  "Range a b = Cls (\<lambda>u. of_char a \<le> u \<and> u \<le> of_char b)"

definition OneOf :: "string \<Rightarrow> regex" where
  "OneOf cs = Cls (\<lambda>u. u \<in> set (js cs))"

definition special_characters :: string where
  "special_characters = ''!@#$%^&*(),.?'' @ [CHR 0x22] @ '':{}|<>''"

definition PASSWORD_CRITERIA :: "(jsstring \<Rightarrow> bool) list" where
  "PASSWORD_CRITERIA =
     [\<lambda>pwd. length pwd \<ge> 8,
      \<lambda>pwd. test_search (Range CHR ''A'' CHR ''Z'') pwd,
      \<lambda>pwd. test_search (Range CHR ''a'' CHR ''z'') pwd,
      \<lambda>pwd. test_search (Cls isDigit) pwd,
      \<lambda>pwd. test_search (OneOf special_characters) pwd]"

text \<open>
  \<^verbatim>\<open>
  const getPasswordStrength = (password: string): number => {
    if (!password) return 0;
    const metCriteria = PASSWORD_CRITERIA.filter(criteria => criteria.test(password));
    return metCriteria.length;
  };
  const getPasswordStrengthDisplay = (score: number) => {
    if (score <= 1) return { label: 'Weak', color: 'text-red-500', bgColor: 'bg-red-500' };
    if (score <= 3) return { label: 'Fair', color: 'text-yellow-500', bgColor: 'bg-yellow-500' };
    if (score <= 4) return { label: 'Good', color: 'text-blue-500', bgColor: 'bg-blue-500' };
    return { label: 'Strong', color: 'text-green-500', bgColor: 'bg-green-500' };
  };
  \<close>
\<close>

definition getPasswordStrength :: "jsstring \<Rightarrow> nat" where
  "getPasswordStrength password =
     (if password = [] then 0
      else (let metCriteria = filter (\<lambda>criteria. criteria password) PASSWORD_CRITERIA
            in length metCriteria))"



section \<open>The data model\<close>

text \<open>
  \<^verbatim>\<open>OnboardingData\<close> and the per-step data interfaces. A field name is a value of
  \<open>field\<close>; the \<^verbatim>\<open>keyof\<close> types of the step components are subsets of it, and the
  \<^verbatim>\<open>default\<close> branch of each \<^verbatim>\<open>validateField\<close> covers the rest.
\<close>

record PersonalInfoData =
  firstName :: jsstring
  lastName :: jsstring
  email :: jsstring

record AccountSetupData =
  password :: jsstring
  confirmPassword :: jsstring

record BillingAddressData =
  addressLine1 :: jsstring
  addressLine2 :: jsstring
  city :: jsstring
  state :: jsstring
  zipCode :: jsstring
  country :: jsstring

record PaymentInfoData =
  cardNumber :: jsstring
  expiryDate :: jsstring
  cvv :: jsstring
  cardholderName :: jsstring

record OnboardingData =
  personalInfo :: PersonalInfoData
  accountSetup :: AccountSetupData
  billingAddress :: BillingAddressData
  paymentInfo :: PaymentInfoData
  termsAccepted :: bool

datatype field =
    FirstName | LastName | Email
  | Password | ConfirmPassword
  | AddressLine1 | AddressLine2 | City | State | ZipCode | Country
  | CardNumber | ExpiryDate | Cvv | CardholderName
  | Terms

text \<open>An errors object: the message stored under each field name, if any.\<close>

type_synonym errors = "field \<Rightarrow> jsstring option"

text \<open>\<^verbatim>\<open>if (error)\<close> on a \<^verbatim>\<open>string | null | undefined\<close>: the empty string is falsy too.\<close>

definition truthy :: "jsstring option \<Rightarrow> bool" where
  "truthy e = (case e of None \<Rightarrow> False | Some m \<Rightarrow> m \<noteq> [])"

text \<open>
  The loop shared by the \<^verbatim>\<open>validateForm\<close> of the personal, billing and payment steps:
  \<^verbatim>\<open>
  const newErrors = {};
  let isValid = true;
  fields.forEach(field => {
    const error = validateField(field, data[field]);
    if (error) {
      newErrors[field] = error;
      isValid = false;
    }
  });
  setErrors(newErrors);
  return isValid;
  \<close>
  It returns the errors object it stores and the result.
\<close>

definition validate_entries ::
  "(field \<Rightarrow> jsstring \<Rightarrow> jsstring option) \<Rightarrow> (field \<times> jsstring) list \<Rightarrow> errors \<times> bool" where
  "validate_entries validateField entries =
     foldl (\<lambda>(newErrors, isValid) (field, val).
              (let error = validateField field val in
               if truthy error then (newErrors(field := error), False)
               else (newErrors, isValid)))
       (Map.empty, True) entries"

section \<open>The validators of the multi-step wizard\<close>

subsection \<open>PersonalInfoStep\<close>

text \<open>
  \<^verbatim>\<open>
  case 'firstName':
    if (!value.trim()) return 'First name is required';
    if (value.trim().length < 2) return 'First name must be at least 2 characters';
    return null;
  case 'lastName':
    if (!value.trim()) return 'Last name is required';
    if (value.trim().length < 2) return 'Last name must be at least 2 characters';
    return null;
  case 'email':
    if (!value.trim()) return 'Email address is required';
    const emailRegex = /^[^\s@]+@[^\s@]+\.[^\s@]+$/;
    if (!emailRegex.test(value)) return 'Please enter a valid email address';
    return null;
  default:
    return null;
  \<close>
\<close>

definition email_regex :: regex where
  "email_regex =
     (let c = Cls (\<lambda>u. \<not> (isWhitespace u \<or> u = of_char CHR ''@'')) in
      Seq (Plus c) (Seq (Chr CHR ''@'') (Seq (Plus c) (Seq (Chr CHR ''.'') (Plus c)))))"

fun PersonalInfoStep_validateField :: "field \<Rightarrow> jsstring \<Rightarrow> jsstring option" where
  "PersonalInfoStep_validateField FirstName val =
     (if trim val = [] then Some (js ''First name is required'')
      else if length (trim val) < 2 then Some (js ''First name must be at least 2 characters'')
      else None)"
| "PersonalInfoStep_validateField LastName val =
     (if trim val = [] then Some (js ''Last name is required'')
      else if length (trim val) < 2 then Some (js ''Last name must be at least 2 characters'')
      else None)"
| "PersonalInfoStep_validateField Email val =
     (if trim val = [] then Some (js ''Email address is required'')
      else if \<not> test_anchored email_regex val then Some (js ''Please enter a valid email address'')
      else None)"
| "PersonalInfoStep_validateField _ val = None"

text \<open>\<^verbatim>\<open>Object.keys(data)\<close> with the values, in the order the object is built.\<close>

definition PersonalInfoData_entries :: "PersonalInfoData \<Rightarrow> (field \<times> jsstring) list" where
  "PersonalInfoData_entries d = [(FirstName, firstName d), (LastName, lastName d), (Email, email d)]"

definition PersonalInfoStep_validateForm :: "PersonalInfoData \<Rightarrow> errors \<times> bool" where
  "PersonalInfoStep_validateForm d =
     validate_entries PersonalInfoStep_validateField (PersonalInfoData_entries d)"

subsection \<open>AccountSetupStep\<close>

text \<open>
  \<^verbatim>\<open>
  if (!data.password) {
    newErrors.password = 'Password is required';
    isValid = false;
  } else if (getPasswordStrength(data.password) < 5) {
    newErrors.password = 'Password must meet all security requirements';
    isValid = false;
  }
  if (!data.confirmPassword) {
    newErrors.confirmPassword = 'Password confirmation is required';
    isValid = false;
  } else if (data.password !== data.confirmPassword) {
    newErrors.confirmPassword = 'Passwords do not match';
    isValid = false;
  }
  \<close>
\<close>

text \<open>
  One check of a \<^verbatim>\<open>validateForm\<close> that is written as a sequence of \<^verbatim>\<open>if\<close>s: when
  the check fails, the message is stored under the field and \<^verbatim>\<open>isValid\<close> is cleared.
\<close>

definition flag :: "bool \<Rightarrow> field \<Rightarrow> string \<Rightarrow> errors \<times> bool \<Rightarrow> errors \<times> bool" where
  "flag failed field msg st =
     (case st of (newErrors, isValid) \<Rightarrow>
        if failed then (newErrors(field \<mapsto> js msg), False) else (newErrors, isValid))"

definition AccountSetupStep_validateForm :: "AccountSetupData \<Rightarrow> errors \<times> bool" where
  "AccountSetupStep_validateForm d =
     (let st = (Map.empty, True);
          st = (if password d = [] then flag True Password ''Password is required'' st
                else flag (getPasswordStrength (password d) < 5) Password
                       ''Password must meet all security requirements'' st);
          st = (if confirmPassword d = []
                then flag True ConfirmPassword ''Password confirmation is required'' st
                else flag (password d \<noteq> confirmPassword d) ConfirmPassword
                       ''Passwords do not match'' st)
      in st)"

subsection \<open>BillingAddressStep\<close>

text \<open>\<^verbatim>\<open>/^\d{5}(-\d{4})?$/\<close>\<close>

definition zip_regex :: regex where
  "zip_regex = Seq (Rep 5 (Cls isDigit)) (Opt (Seq (Chr CHR ''-'') (Rep 4 (Cls isDigit))))"

text \<open>
  \<^verbatim>\<open>
  case 'zipCode':
    if (!value.trim()) return 'ZIP/Postal code is required';
    // Basic validation for US ZIP codes and international postal codes
    if (data.country === 'United States') {
      if (!/^\d{5}(-\d{4})?$/.test(value)) return 'Please enter a valid ZIP code (12345 or 12345-6789)';
    } else if (value.trim().length < 3) {
      return 'Please enter a valid postal code';
    }
    return null;
  \<close>
  The validator reads the country from the step's current \<^verbatim>\<open>data\<close>.
\<close>

fun BillingAddressStep_validateField ::
  "BillingAddressData \<Rightarrow> field \<Rightarrow> jsstring \<Rightarrow> jsstring option" where
  "BillingAddressStep_validateField d AddressLine1 val =
     (if trim val = [] then Some (js ''Street address is required'')
      else if length (trim val) < 5 then Some (js ''Please enter a complete street address'')
      else None)"
| "BillingAddressStep_validateField d City val =
     (if trim val = [] then Some (js ''City is required'')
      else if length (trim val) < 2 then Some (js ''Please enter a valid city name'')
      else None)"
| "BillingAddressStep_validateField d State val =
     (if trim val = [] then Some (js ''State/Province is required'') else None)"
| "BillingAddressStep_validateField d ZipCode val =
     (if trim val = [] then Some (js ''ZIP/Postal code is required'')
      else if country d = js ''United States''
      then (if \<not> test_anchored zip_regex val
            then Some (js ''Please enter a valid ZIP code (12345 or 12345-6789)'')
            else None)
      else if length (trim val) < 3 then Some (js ''Please enter a valid postal code'')
      else None)"
| "BillingAddressStep_validateField d Country val =
     (if trim val = [] then Some (js ''Country is required'') else None)"
| "BillingAddressStep_validateField d _ val = None"

text \<open>The \<^verbatim>\<open>requiredFields\<close> of \<^verbatim>\<open>validateForm\<close>, with their values.\<close>

definition BillingAddressData_required :: "BillingAddressData \<Rightarrow> (field \<times> jsstring) list" where
  "BillingAddressData_required d =
     [(AddressLine1, addressLine1 d), (City, city d), (State, state d), (ZipCode, zipCode d),
      (Country, country d)]"

definition BillingAddressStep_validateForm :: "BillingAddressData \<Rightarrow> errors \<times> bool" where
  "BillingAddressStep_validateForm d =
     validate_entries (BillingAddressStep_validateField d) (BillingAddressData_required d)"

subsection \<open>PaymentInfoStep\<close>

text \<open>The part of \<^verbatim>\<open>new Date()\<close> the validator reads.\<close>

record date =
  getFullYear :: int
  getMonth :: int

text \<open>\<^verbatim>\<open>/^\d{2}\/\d{2}$/\<close> and \<^verbatim>\<open>/^\d{3,4}$/\<close>\<close>

definition expiry_regex :: regex where
  "expiry_regex = Seq (Rep 2 (Cls isDigit)) (Seq (Chr CHR ''/'') (Rep 2 (Cls isDigit)))"

definition cvv_regex :: regex where
  "cvv_regex = Seq (Rep 3 (Cls isDigit)) (Opt (Cls isDigit))"

text \<open>
  An element of a destructured array, \<^verbatim>\<open>undefined\<close> when the array is too short, and
  \<^verbatim>\<open>parseInt\<close> of it (\<^verbatim>\<open>parseInt(undefined)\<close> is \<^verbatim>\<open>NaN\<close>).
\<close>

definition element :: "jsstring list \<Rightarrow> nat \<Rightarrow> jsstring option" where
  "element xs i = (if i < length xs then Some (xs ! i) else None)"

definition parseInt_opt :: "jsstring option \<Rightarrow> number" where
  "parseInt_opt v = (case v of None \<Rightarrow> NaN | Some s \<Rightarrow> parseInt s)"

text \<open>
  \<^verbatim>\<open>
  case 'expiryDate':
    if (!value.trim()) return 'Expiry date is required';
    if (!/^\d{2}\/\d{2}$/.test(value)) return 'Please enter date as MM/YY';
    const [month, year] = value.split('/');
    const now = new Date();
    const currentYear = now.getFullYear() % 100;
    const currentMonth = now.getMonth() + 1;
    if (parseInt(month) < 1 || parseInt(month) > 12) return 'Invalid month';
    if (parseInt(year) < currentYear ||
        (parseInt(year) === currentYear && parseInt(month) < currentMonth)) {
      return 'Card has expired';
    }
    return null;
  \<close>
  The current date is a parameter.
\<close>

fun PaymentInfoStep_validateField :: "date \<Rightarrow> field \<Rightarrow> jsstring \<Rightarrow> jsstring option" where
  "PaymentInfoStep_validateField now CardNumber val =
     (if trim val = [] then Some (js ''Card number is required'')
      else if \<not> isValidCardNumber val then Some (js ''Please enter a valid card number'')
      else None)"
| "PaymentInfoStep_validateField now ExpiryDate val =
     (if trim val = [] then Some (js ''Expiry date is required'')
      else if \<not> test_anchored expiry_regex val then Some (js ''Please enter date as MM/YY'')
      else (let parts = split_on (of_char CHR ''/'') val;
                month = element parts 0;
                year = element parts 1;
                currentYear = num_rem (Num (getFullYear now)) (Num 100);
                currentMonth = num_add (Num (getMonth now)) (Num 1)
            in if num_lt (parseInt_opt month) (Num 1) \<or> num_gt (parseInt_opt month) (Num 12)
               then Some (js ''Invalid month'')
               else if num_lt (parseInt_opt year) currentYear \<or>
                       (num_eq (parseInt_opt year) currentYear \<and>
                        num_lt (parseInt_opt month) currentMonth)
               then Some (js ''Card has expired'')
               else None))"
| "PaymentInfoStep_validateField now Cvv val =
     (if trim val = [] then Some (js ''CVV is required'')
      else if \<not> test_anchored cvv_regex val then Some (js ''CVV must be 3 or 4 digits'')
      else None)"
| "PaymentInfoStep_validateField now CardholderName val =
     (if trim val = [] then Some (js ''Cardholder name is required'')
      else if length (trim val) < 2 then Some (js ''Please enter the full name on the card'')
      else None)"
| "PaymentInfoStep_validateField now _ val = None"

definition PaymentInfoData_entries :: "PaymentInfoData \<Rightarrow> (field \<times> jsstring) list" where
  "PaymentInfoData_entries d =
     [(CardNumber, cardNumber d), (ExpiryDate, expiryDate d), (Cvv, cvv d),
      (CardholderName, cardholderName d)]"

definition PaymentInfoStep_validateForm :: "date \<Rightarrow> PaymentInfoData \<Rightarrow> errors \<times> bool" where
  "PaymentInfoStep_validateForm now d =
     validate_entries (PaymentInfoStep_validateField now) (PaymentInfoData_entries d)"

text \<open>
  The step's own state, with the \<^verbatim>\<open>data\<close> its parent hands back after each
  \<^verbatim>\<open>onUpdate\<close>.
\<close>

record PaymentInfoStep_state =
  pi_data :: PaymentInfoData
  pi_errors :: errors
  pi_touched :: "field \<Rightarrow> bool"

text \<open>\<^verbatim>\<open>data[field]\<close> and \<^verbatim>\<open>{ ...data, [field]: value }\<close>\<close>

fun PaymentInfoData_get :: "PaymentInfoData \<Rightarrow> field \<Rightarrow> jsstring option" where
  "PaymentInfoData_get d CardNumber = Some (cardNumber d)"
| "PaymentInfoData_get d ExpiryDate = Some (expiryDate d)"
| "PaymentInfoData_get d Cvv = Some (cvv d)"
| "PaymentInfoData_get d CardholderName = Some (cardholderName d)"
| "PaymentInfoData_get d _ = None"

fun PaymentInfoData_set :: "PaymentInfoData \<Rightarrow> field \<Rightarrow> jsstring \<Rightarrow> PaymentInfoData" where
  "PaymentInfoData_set d CardNumber v = d\<lparr>cardNumber := v\<rparr>"
| "PaymentInfoData_set d ExpiryDate v = d\<lparr>expiryDate := v\<rparr>"
| "PaymentInfoData_set d Cvv v = d\<lparr>cvv := v\<rparr>"
| "PaymentInfoData_set d CardholderName v = d\<lparr>cardholderName := v\<rparr>"
| "PaymentInfoData_set d _ v = d"

text \<open>
  \<^verbatim>\<open>
  const handleInputChange = (field: keyof PaymentInfoData, value: string) => {
    let formattedValue = value;
    if (field === 'cardNumber') {
      formattedValue = formatCardNumber(value);
    } else if (field === 'expiryDate') {
      formattedValue = formatExpiryDate(value);
    } else if (field === 'cvv') {
      formattedValue = value.replace(/\D/g, '').substr(0, 4);
    }
    onUpdate({ ...data, [field]: formattedValue });
    if (errors[field]) {
      setErrors(prev => ({ ...prev, [field]: undefined }));
    }
    if (touched[field]) {
      const error = validateField(field, formattedValue);
      if (error) {
        setErrors(prev => ({ ...prev, [field]: error }));
      }
    }
  };
  const handleFieldBlur = (field: keyof PaymentInfoData) => {
    setTouched(prev => ({ ...prev, [field]: true }));
    const error = validateField(field, data[field]);
    if (error) {
      setErrors(prev => ({ ...prev, [field]: error }));
    }
  };
  \<close>
\<close>

definition PaymentInfoStep_handleInputChange ::
  "date \<Rightarrow> PaymentInfoStep_state \<Rightarrow> field \<Rightarrow> jsstring \<Rightarrow> PaymentInfoStep_state" where
  "PaymentInfoStep_handleInputChange now st field val =
     (let formattedValue =
            (if field = CardNumber then formatCardNumber val
             else if field = ExpiryDate then formatExpiryDate val
             else if field = Cvv then substr (replace_all_empty (\<lambda>c. \<not> isDigit c) val) 0 4
             else val);
          data' = PaymentInfoData_set (pi_data st) field formattedValue;
          errors1 = (if truthy (pi_errors st field) then (pi_errors st)(field := None)
                     else pi_errors st);
          errors2 = (if pi_touched st field
                     then (let error = PaymentInfoStep_validateField now field formattedValue in
                           if truthy error then errors1(field := error) else errors1)
                     else errors1)
      in st\<lparr>pi_data := data', pi_errors := errors2\<rparr>)"

definition PaymentInfoStep_handleFieldBlur ::
  "date \<Rightarrow> PaymentInfoStep_state \<Rightarrow> field \<Rightarrow> PaymentInfoStep_state" where
  "PaymentInfoStep_handleFieldBlur now st field =
     (let touched' = (pi_touched st)(field := True);
          error = (case PaymentInfoData_get (pi_data st) field of
                     None \<Rightarrow> None
                   | Some v \<Rightarrow> PaymentInfoStep_validateField now field v);
          errors' = (if truthy error then (pi_errors st)(field := error) else pi_errors st)
      in st\<lparr>pi_errors := errors', pi_touched := touched'\<rparr>)"

text \<open>
  The user's events on the mounted step, each at its own current date, and the state after
  a sequence of them. The step mounts with the empty payment data of the controller and
  nothing touched.
\<close>

datatype payment_event = Change date field jsstring | Blur date field

fun payment_step :: "PaymentInfoStep_state \<Rightarrow> payment_event \<Rightarrow> PaymentInfoStep_state" where
  "payment_step st (Change now field val) = PaymentInfoStep_handleInputChange now st field val"
| "payment_step st (Blur now field) = PaymentInfoStep_handleFieldBlur now st field"

definition payment_initial :: PaymentInfoStep_state where
  "payment_initial =
     \<lparr>pi_data = \<lparr>cardNumber = [], expiryDate = [], cvv = [], cardholderName = []\<rparr>,
      pi_errors = Map.empty, pi_touched = (\<lambda>_. False)\<rparr>"

section \<open>The single-page variant\<close>

text \<open>
  \<^verbatim>\<open>SinglePageOnboarding.validateForm\<close>: one \<^verbatim>\<open>if\<close> per check, each storing its message
  in \<^verbatim>\<open>newErrors\<close> and clearing \<^verbatim>\<open>isValid\<close>; it returns \<^verbatim>\<open>isValid\<close> after
  \<^verbatim>\<open>setErrors(newErrors)\<close>. The checks, in the order of the source:
  \<^verbatim>\<open>
  if (!formData.personalInfo.firstName.trim())  firstName = 'First name is required'
  if (!formData.personalInfo.lastName.trim())   lastName = 'Last name is required'
  if (!formData.personalInfo.email.trim())      email = 'Email is required'
  else if (!/^[^\s@]+@[^\s@]+\.[^\s@]+$/.test(formData.personalInfo.email))
                                                email = 'Please enter a valid email address'
  if (getPasswordStrength(formData.accountSetup.password) < 5)
                                                password = 'Password must meet all security requirements'
  if (formData.accountSetup.password !== formData.accountSetup.confirmPassword)
                                                confirmPassword = 'Passwords do not match'
  if (!formData.billingAddress.addressLine1.trim())  addressLine1 = 'Street address is required'
  if (!formData.billingAddress.city.trim())     city = 'City is required'
  if (!formData.billingAddress.state.trim())    state = 'State is required'
  if (!formData.billingAddress.zipCode.trim())  zipCode = 'ZIP code is required'
  if (!formData.billingAddress.country.trim())  country = 'Country is required'
  if (!isValidCardNumber(formData.paymentInfo.cardNumber))
                                                cardNumber = 'Please enter a valid card number'
  if (!/^\d{2}\/\d{2}$/.test(formData.paymentInfo.expiryDate))
                                                expiryDate = 'Please enter date as MM/YY'
  if (!/^\d{3,4}$/.test(formData.paymentInfo.cvv))   cvv = 'CVV must be 3 or 4 digits'
  if (!formData.paymentInfo.cardholderName.trim())   cardholderName = 'Cardholder name is required'
  if (!formData.termsAccepted)                  terms = 'You must accept the terms and conditions'
  \<close>
\<close>

definition SinglePageOnboarding_validateForm :: "OnboardingData \<Rightarrow> errors \<times> bool" where
  "SinglePageOnboarding_validateForm formData =
     (let st = (Map.empty, True);
          st = flag (trim (firstName (personalInfo formData)) = []) FirstName
                 ''First name is required'' st;
          st = flag (trim (lastName (personalInfo formData)) = []) LastName
                 ''Last name is required'' st;
          st = (if trim (email (personalInfo formData)) = []
                then flag True Email ''Email is required'' st
                else flag (\<not> test_anchored email_regex (email (personalInfo formData))) Email
                       ''Please enter a valid email address'' st);
          st = flag (getPasswordStrength (password (accountSetup formData)) < 5) Password
                 ''Password must meet all security requirements'' st;
          st = flag (password (accountSetup formData) \<noteq> confirmPassword (accountSetup formData))
                 ConfirmPassword ''Passwords do not match'' st;
          st = flag (trim (addressLine1 (billingAddress formData)) = []) AddressLine1
                 ''Street address is required'' st;
          st = flag (trim (city (billingAddress formData)) = []) City ''City is required'' st;
          st = flag (trim (state (billingAddress formData)) = []) State ''State is required'' st;
          st = flag (trim (zipCode (billingAddress formData)) = []) ZipCode
                 ''ZIP code is required'' st;
          st = flag (trim (country (billingAddress formData)) = []) Country
                 ''Country is required'' st;
          st = flag (\<not> isValidCardNumber (cardNumber (paymentInfo formData))) CardNumber
                 ''Please enter a valid card number'' st;
          st = flag (\<not> test_anchored expiry_regex (expiryDate (paymentInfo formData))) ExpiryDate
                 ''Please enter date as MM/YY'' st;
          st = flag (\<not> test_anchored cvv_regex (cvv (paymentInfo formData))) Cvv
                 ''CVV must be 3 or 4 digits'' st;
          st = flag (trim (cardholderName (paymentInfo formData)) = []) CardholderName
                 ''Cardholder name is required'' st;
          st = flag (\<not> termsAccepted formData) Terms
                 ''You must accept the terms and conditions'' st
      in st)"

text \<open>
  The errors the four step validators of the wizard give for the same data: the
  \<^verbatim>\<open>newErrors\<close> of each step's \<^verbatim>\<open>validateForm\<close>, which own disjoint fields.
\<close>

definition wizard_errors :: "date \<Rightarrow> OnboardingData \<Rightarrow> errors" where
  "wizard_errors now formData =
     fst (PersonalInfoStep_validateForm (personalInfo formData)) ++
     fst (AccountSetupStep_validateForm (accountSetup formData)) ++
     fst (BillingAddressStep_validateForm (billingAddress formData)) ++
     fst (PaymentInfoStep_validateForm now (paymentInfo formData))"

definition wizard_valid :: "date \<Rightarrow> OnboardingData \<Rightarrow> bool" where
  "wizard_valid now formData \<longleftrightarrow>
     snd (PersonalInfoStep_validateForm (personalInfo formData)) \<and>
     snd (AccountSetupStep_validateForm (accountSetup formData)) \<and>
     snd (BillingAddressStep_validateForm (billingAddress formData)) \<and>
     snd (PaymentInfoStep_validateForm now (paymentInfo formData))"

text \<open>The fields the four steps own.\<close>

definition step_fields :: "field list" where
  "step_fields =
     [FirstName, LastName, Email, Password, ConfirmPassword, AddressLine1, AddressLine2, City,
      State, ZipCode, Country, CardNumber, ExpiryDate, Cvv, CardholderName]"

section \<open>The controller of the wizard\<close>

text \<open>
  \<^verbatim>\<open>OnboardingFlow\<close>: the step index, the accumulated form data and the submission
  state. \<^verbatim>\<open>console.log\<close> and \<^verbatim>\<open>alert\<close> are recorded in \<open>effects\<close>.
\<close>

datatype step_id = personal_info | account_setup | billing_address | payment_info | terms_confirmation

definition ONBOARDING_STEPS :: "step_id list" where
  "ONBOARDING_STEPS = [personal_info, account_setup, billing_address, payment_info, terms_confirmation]"

datatype effect = ConsoleLog OnboardingData | Alert jsstring

record flow_state =
  currentStep :: int
  formData :: OnboardingData
  isSubmitting :: bool
  submitError :: "jsstring option"
  effects :: "effect list"

definition flow_initial :: flow_state where
  "flow_initial =
     \<lparr>currentStep = 0,
      formData =
        \<lparr>personalInfo = \<lparr>firstName = [], lastName = [], email = []\<rparr>,
         accountSetup = \<lparr>password = [], confirmPassword = []\<rparr>,
         billingAddress =
           \<lparr>addressLine1 = [], addressLine2 = [], city = [], state = [], zipCode = [],
            country = js ''United States''\<rparr>,
         paymentInfo = \<lparr>cardNumber = [], expiryDate = [], cvv = [], cardholderName = []\<rparr>,
         termsAccepted = False\<rparr>,
      isSubmitting = False, submitError = None, effects = []\<rparr>"

text \<open>
  \<^verbatim>\<open>
  const handleNext = () => {
    if (currentStep < ONBOARDING_STEPS.length - 1) {
      setCurrentStep(currentStep + 1);
    }
  };
  const handlePrevious = () => {
    if (currentStep > 0) {
      setCurrentStep(currentStep - 1);
    }
  };
  \<close>
\<close>

definition handleNext :: "flow_state \<Rightarrow> flow_state" where
  "handleNext st =
     (if currentStep st < int (length ONBOARDING_STEPS) - 1
      then st\<lparr>currentStep := currentStep st + 1\<rparr>
      else st)"

definition handlePrevious :: "flow_state \<Rightarrow> flow_state" where
  "handlePrevious st =
     (if currentStep st > 0 then st\<lparr>currentStep := currentStep st - 1\<rparr> else st)"

text \<open>
  \<^verbatim>\<open>Partial<OnboardingData>\<close> and
  \<^verbatim>\<open>setFormData(prev => ({ ...prev, ...stepData }))\<close>.
\<close>

record OnboardingData_partial =
  personalInfo_opt :: "PersonalInfoData option"
  accountSetup_opt :: "AccountSetupData option"
  billingAddress_opt :: "BillingAddressData option"
  paymentInfo_opt :: "PaymentInfoData option"
  termsAccepted_opt :: "bool option"

definition updateFormData :: "OnboardingData_partial \<Rightarrow> flow_state \<Rightarrow> flow_state" where
  "updateFormData stepData st =
     st\<lparr>formData :=
         \<lparr>personalInfo = (case personalInfo_opt stepData of
                            Some v \<Rightarrow> v | None \<Rightarrow> personalInfo (formData st)),
          accountSetup = (case accountSetup_opt stepData of
                            Some v \<Rightarrow> v | None \<Rightarrow> accountSetup (formData st)),
          billingAddress = (case billingAddress_opt stepData of
                              Some v \<Rightarrow> v | None \<Rightarrow> billingAddress (formData st)),
          paymentInfo = (case paymentInfo_opt stepData of
                           Some v \<Rightarrow> v | None \<Rightarrow> paymentInfo (formData st)),
          termsAccepted = (case termsAccepted_opt stepData of
                             Some v \<Rightarrow> v | None \<Rightarrow> termsAccepted (formData st))\<rparr>\<rparr>"

text \<open>
  \<^verbatim>\<open>
  const handleSubmit = async () => {
    setIsSubmitting(true);
    setSubmitError(null);
    try {
      console.log('Submitting onboarding data:', formData);
      await new Promise(resolve => setTimeout(resolve, 2000));
      alert('Account created successfully! Welcome to SARAS Ultimate.');
    } catch (error) {
      setSubmitError('An error occurred while creating your account. Please try again.');
    } finally {
      setIsSubmitting(false);
    }
  };
  \<close>
  Nothing in the \<^verbatim>\<open>try\<close> block throws, so the state after the promise settles is the
  one below.
\<close>

definition OnboardingFlow_handleSubmit :: "flow_state \<Rightarrow> flow_state" where
  "OnboardingFlow_handleSubmit st =
     st\<lparr>isSubmitting := False, submitError := None,
        effects := effects st @
          [ConsoleLog (formData st),
           Alert (js ''Account created successfully! Welcome to SARAS Ultimate.'')]\<rparr>"

text \<open>
  \<^verbatim>\<open>renderCurrentStep\<close>: the step component for \<^verbatim>\<open>ONBOARDING_STEPS[currentStep].id\<close>
  and the controller callbacks it is given. An index outside the array makes the property
  access throw (\<open>None\<close>).
\<close>

datatype callback = HandleNext | HandlePrevious | HandleSubmit

record rendered =
  component :: step_id
  onNext :: "callback option"
  onPrevious :: "callback option"
  onSubmit :: "callback option"

definition renderCurrentStep :: "flow_state \<Rightarrow> rendered option" where
  "renderCurrentStep st =
     (if 0 \<le> currentStep st \<and> currentStep st < int (length ONBOARDING_STEPS)
      then (let stepId = ONBOARDING_STEPS ! nat (currentStep st) in
            Some (case stepId of
                    personal_info \<Rightarrow>
                      \<lparr>component = stepId, onNext = Some HandleNext, onPrevious = None,
                       onSubmit = None\<rparr>
                  | terms_confirmation \<Rightarrow>
                      \<lparr>component = stepId, onNext = None, onPrevious = Some HandlePrevious,
                       onSubmit = Some HandleSubmit\<rparr>
                  | _ \<Rightarrow>
                      \<lparr>component = stepId, onNext = Some HandleNext,
                       onPrevious = Some HandlePrevious, onSubmit = None\<rparr>))
      else None)"

text \<open>
  \<^verbatim>\<open>TermsConfirmationStep.handleSubmit\<close>, as the calls it makes:
  \<^verbatim>\<open>
  const handleSubmit = async (e: React.FormEvent) => {
    e.preventDefault();
    if (!termsAccepted) {
      return;
    }
    await onSubmit();
  };
  \<close>
\<close>

datatype terms_call = PreventDefault | OnSubmit

definition TermsConfirmationStep_handleSubmit :: "bool \<Rightarrow> terms_call list" where
  "TermsConfirmationStep_handleSubmit accepted =
     (if \<not> accepted then [PreventDefault] else [PreventDefault, OnSubmit])"

text \<open>
  The step mounted in the controller: \<^verbatim>\<open>termsAccepted={formData.termsAccepted}\<close> and
  \<^verbatim>\<open>onSubmit={handleSubmit}\<close>.
\<close>

fun perform_terms_call :: "flow_state \<Rightarrow> terms_call \<Rightarrow> flow_state" where
  "perform_terms_call st PreventDefault = st"
| "perform_terms_call st OnSubmit = OnboardingFlow_handleSubmit st"

definition submit_terms :: "flow_state \<Rightarrow> flow_state" where
  "submit_terms st =
     foldl perform_terms_call st
       (TermsConfirmationStep_handleSubmit (termsAccepted (formData st)))"

text \<open>The controller's handlers as actions, and the state after a sequence of them.\<close>

datatype action = Next | Previous | Update OnboardingData_partial | SubmitTerms

fun flow_step :: "flow_state \<Rightarrow> action \<Rightarrow> flow_state" where
  "flow_step st Next = handleNext st"
| "flow_step st Previous = handlePrevious st"
| "flow_step st (Update stepData) = updateFormData stepData st"
| "flow_step st SubmitTerms = submit_terms st"

section \<open>The rules in the words of the specification\<close>

text \<open>
  A United States ZIP code, \<^verbatim>\<open>\d{5}(-\d{4})?\<close>: five digits, or five digits, a hyphen
  and four digits.
\<close>

definition is_us_zip :: "jsstring \<Rightarrow> bool" where
  "is_us_zip v \<longleftrightarrow>
     (length v = 5 \<and> list_all isDigit v) \<or>
     (length v = 10 \<and> list_all isDigit (take 5 v) \<and> v ! 5 = of_char CHR ''-'' \<and>
      list_all isDigit (drop 6 v))"

text \<open>
  An expiry date \<^verbatim>\<open>MM/YY\<close>: exactly two digits, a slash and two digits; its month and
  two-digit year; the current two-digit year (\<^verbatim>\<open>%\<close> of JavaScript, which is \<open>mod\<close> for
  a year that is not negative) and month (\<^verbatim>\<open>getMonth\<close> counts from zero); and the order
  on (year, month) pairs.
\<close>

definition digit_value :: "code_unit \<Rightarrow> int" where
  "digit_value c = int c - 48"

fun expiry_format :: "jsstring \<Rightarrow> bool" where
  "expiry_format [a, b, s, c, d] \<longleftrightarrow>
     isDigit a \<and> isDigit b \<and> s = of_char CHR ''/'' \<and> isDigit c \<and> isDigit d"
| "expiry_format _ \<longleftrightarrow> False"

fun expiry_month :: "jsstring \<Rightarrow> int" where
  "expiry_month (a # b # _) = 10 * digit_value a + digit_value b"
| "expiry_month _ = 0"

fun expiry_year :: "jsstring \<Rightarrow> int" where
  "expiry_year (a # b # s # c # d # _) = 10 * digit_value c + digit_value d"
| "expiry_year _ = 0"

definition current_year :: "date \<Rightarrow> int" where
  "current_year now = sgn (getFullYear now) * (\<bar>getFullYear now\<bar> mod 100)"

definition current_month :: "date \<Rightarrow> int" where
  "current_month now = getMonth now + 1"

definition strictly_before :: "int \<times> int \<Rightarrow> int \<times> int \<Rightarrow> bool" where
  "strictly_before p q \<longleftrightarrow> fst p < fst q \<or> (fst p = fst q \<and> snd p < snd q)"

text \<open>
  The Luhn checksum over the digits read right to left: every second digit, starting from
  the second, is doubled, and 9 is subtracted from a doubled value above 9. A card number
  is acceptable when, after the characters of the class \<open>removed\<close> are taken out, it
  consists of 13 to 19 digits whose checksum is a multiple of 10. \<open>isSpace\<close> is the
  class of the space character alone.
\<close>

definition luhn_double :: "int \<Rightarrow> int" where
  "luhn_double d = (if 2 * d > 9 then 2 * d - 9 else 2 * d)"

fun luhn_sum :: "int list \<Rightarrow> int" where
  "luhn_sum [] = 0"
| "luhn_sum [d] = d"
| "luhn_sum (d # e # ds) = d + luhn_double e + luhn_sum ds"

definition luhn_valid :: "jsstring \<Rightarrow> bool" where
  "luhn_valid ds \<longleftrightarrow> luhn_sum (rev (map digit_value ds)) mod 10 = 0"

definition card_number_rule :: "(code_unit \<Rightarrow> bool) \<Rightarrow> jsstring \<Rightarrow> bool" where
  "card_number_rule removed s \<longleftrightarrow>
     (let c = filter (\<lambda>u. \<not> removed u) s in
      list_all isDigit c \<and> 13 \<le> length c \<and> length c \<le> 19 \<and> luhn_valid c)"

definition isSpace :: "code_unit \<Rightarrow> bool" where
  "isSpace c \<longleftrightarrow> c = of_char CHR '' ''"

text \<open>
  The card-number format: the digits of the input in chunks of four, joined by single
  spaces, cut to 19 characters.
\<close>

fun group4 :: "'a list \<Rightarrow> 'a list list" where
  "group4 (a # b # c # d # r) = [a, b, c, d] # group4 r"
| "group4 [] = []"
| "group4 xs = [xs]"

definition card_format_spec :: "jsstring \<Rightarrow> jsstring" where
  "card_format_spec v = take 19 (join (js '' '') (group4 (filter isDigit v)))"

text \<open>
  The five password criteria as a count, and the label of a score. An uppercase letter is
  \<^verbatim>\<open>A-Z\<close>, a lowercase letter \<^verbatim>\<open>a-z\<close>. For the special character there are two
  readings: \<open>isSymbol\<close>, any printable ASCII character that is neither a letter nor a
  digit, which is what the words say; and \<open>isSpecial\<close>, one of the twenty characters
  \<^verbatim>\<open>! " # $ % & ( ) * , . : < > ? @ ^ { | }\<close>, given here by their codes.
\<close>

definition isUpper :: "code_unit \<Rightarrow> bool" where
  "isUpper c \<longleftrightarrow> of_char CHR ''A'' \<le> c \<and> c \<le> of_char CHR ''Z''"

definition isLower :: "code_unit \<Rightarrow> bool" where
  "isLower c \<longleftrightarrow> of_char CHR ''a'' \<le> c \<and> c \<le> of_char CHR ''z''"

definition isSymbol :: "code_unit \<Rightarrow> bool" where
  "isSymbol c \<longleftrightarrow> 32 \<le> c \<and> c \<le> 126 \<and> \<not> isUpper c \<and> \<not> isLower c \<and> \<not> isDigit c"

definition isSpecial :: "code_unit \<Rightarrow> bool" where
  "isSpecial c \<longleftrightarrow>
     c \<in> set [33, 34, 35, 36, 37, 38, 40, 41, 42, 44, 46, 58, 60, 62, 63, 64, 94, 123, 124, 125]"

definition criteria_worded :: "jsstring \<Rightarrow> nat" where
  "criteria_worded pwd =
     of_bool (8 \<le> length pwd) + of_bool (list_ex isUpper pwd) + of_bool (list_ex isLower pwd) +
     of_bool (list_ex isDigit pwd) + of_bool (list_ex isSymbol pwd)"

definition criteria_met :: "jsstring \<Rightarrow> nat" where
  "criteria_met pwd =
     of_bool (8 \<le> length pwd) + of_bool (list_ex isUpper pwd) + of_bool (list_ex isLower pwd) +
     of_bool (list_ex isDigit pwd) + of_bool (list_ex isSpecial pwd)"


text \<open>The step on display is given the controller's \<^verbatim>\<open>handlePrevious\<close>.\<close>

definition previous_offered :: "flow_state \<Rightarrow> bool" where
  "previous_offered st =
     (case renderCurrentStep st of
        None \<Rightarrow> False
      | Some r \<Rightarrow> onPrevious r = Some HandlePrevious)"

text \<open>
  Two filled-in forms and a current date for the comparison of the two variants: one with
  one-letter names, a four-character street, a non-numeric ZIP code and month 13, and one
  that every validator accepts.
\<close>

definition lenient_form :: OnboardingData where
  "lenient_form =
     \<lparr>personalInfo = \<lparr>firstName = js ''A'', lastName = js ''B'', email = js ''a@b.co''\<rparr>,
      accountSetup = \<lparr>password = js ''Abcdef1!'', confirmPassword = js ''Abcdef1!''\<rparr>,
      billingAddress =
        \<lparr>addressLine1 = js ''1 St'', addressLine2 = [], city = js ''X'', state = js ''NY'',
         zipCode = js ''abc'', country = js ''United States''\<rparr>,
      paymentInfo =
        \<lparr>cardNumber = js ''4111111111111111'', expiryDate = js ''13/99'', cvv = js ''123'',
         cardholderName = js ''Z''\<rparr>,
      termsAccepted = True\<rparr>"

definition valid_form :: OnboardingData where
  "valid_form =
     \<lparr>personalInfo = \<lparr>firstName = js ''Ada'', lastName = js ''Byron'', email = js ''a@b.co''\<rparr>,
      accountSetup = \<lparr>password = js ''Abcdef1!'', confirmPassword = js ''Abcdef1!''\<rparr>,
      billingAddress =
        \<lparr>addressLine1 = js ''1 Main St'', addressLine2 = [], city = js ''NYC'', state = js ''NY'',
         zipCode = js ''12345'', country = js ''United States''\<rparr>,
      paymentInfo =
        \<lparr>cardNumber = js ''4111111111111111'', expiryDate = js ''12/30'', cvv = js ''123'',
         cardholderName = js ''Ada Byron''\<rparr>,
      termsAccepted = True\<rparr>"

definition november_2026 :: date where
  "november_2026 = \<lparr>getFullYear = 2026, getMonth = 10\<rparr>"

section \<open>Facts about the matcher\<close>

lemma matches_Cls_iff: "matches (Cls p) s \<longleftrightarrow> (\<exists>c. s = [c] \<and> p c)"
  by (auto simp: matches.simps split: list.splits)

lemma matches_Seq_iff:
  "matches (Seq a b) s \<longleftrightarrow> (\<exists>u v. s = u @ v \<and> matches a u \<and> matches b v)"
proof
  assume "matches (Seq a b) s"
  then have "\<exists>i\<in>set [0..<Suc (length s)].
      (if matches a (take i s) then matches b (drop i s) else False)"
    by (simp only: matches.simps list_ex_iff)
  then obtain i where "if matches a (take i s) then matches b (drop i s) else False"
    by blast
  then have "s = take i s @ drop i s \<and> matches a (take i s) \<and> matches b (drop i s)"
    by (simp split: if_splits)
  then show "\<exists>u v. s = u @ v \<and> matches a u \<and> matches b v"
    by blast
next
  assume "\<exists>u v. s = u @ v \<and> matches a u \<and> matches b v"
  then obtain u v where uv: "s = u @ v" "matches a u" "matches b v"
    by blast
  then have "length u \<in> set [0..<Suc (length s)]"
    and "if matches a (take (length u) s) then matches b (drop (length u) s) else False"
    by auto
  then have "\<exists>i\<in>set [0..<Suc (length s)].
      (if matches a (take i s) then matches b (drop i s) else False)"
    by blast
  then show "matches (Seq a b) s"
    by (simp only: matches.simps list_ex_iff)
qed

lemma matches_Star_Cls_Cons:
  "matches (Star (Cls p)) (c # cs) \<longleftrightarrow> p c \<and> matches (Star (Cls p)) cs"
proof
  assume "matches (Star (Cls p)) (c # cs)"
  then have "\<exists>i\<in>set [1..<Suc (length (c # cs))].
      (if matches (Cls p) (take i (c # cs)) then matches (Star (Cls p)) (drop i (c # cs))
       else False)"
    by (subst (asm) matches.simps) (simp only: list_ex_iff list.simps if_False)
  then obtain i where mem: "i \<in> set [1..<Suc (length (c # cs))]"
    and cond: "if matches (Cls p) (take i (c # cs)) then matches (Star (Cls p)) (drop i (c # cs))
       else False"
    by blast
  from mem have "1 \<le> i"
    by (simp only: set_upt atLeastLessThan_iff)
  moreover from cond have "matches (Cls p) (take i (c # cs))"
    and "matches (Star (Cls p)) (drop i (c # cs))"
    by (simp_all split: if_splits)
  ultimately have i: "1 \<le> i" "matches (Cls p) (take i (c # cs))"
      "matches (Star (Cls p)) (drop i (c # cs))"
    by blast+
  from i(1) obtain j where j: "i = Suc j"
    by (cases i) auto
  from i(2) j have "p c" "take j cs = []"
    by (auto simp: matches_Cls_iff)
  then have "j = 0 \<or> cs = []"
    by auto
  with i(3) j \<open>p c\<close> show "p c \<and> matches (Star (Cls p)) cs"
    by auto
next
  assume "p c \<and> matches (Star (Cls p)) cs"
  then have "if matches (Cls p) (take 1 (c # cs)) then matches (Star (Cls p)) (drop 1 (c # cs))
      else False"
    by (auto simp: matches_Cls_iff)
  moreover have "(1::nat) \<in> set [1..<Suc (length (c # cs))]"
    by (simp only: set_upt atLeastLessThan_iff) simp
  ultimately have "\<exists>i\<in>set [1..<Suc (length (c # cs))].
      (if matches (Cls p) (take i (c # cs)) then matches (Star (Cls p)) (drop i (c # cs))
       else False)"
    by blast
  then show "matches (Star (Cls p)) (c # cs)"
    by (subst matches.simps) (simp only: list_ex_iff list.simps if_False)
qed

lemma matches_Star_Cls: "matches (Star (Cls p)) s \<longleftrightarrow> list_all p s"
proof (induction s)
  case Nil
  show ?case by (simp add: matches.simps)
next
  case (Cons c cs)
  then show ?case
    by (simp add: matches_Star_Cls_Cons)
qed

lemma matches_Plus_Cls: "matches (Plus (Cls p)) s \<longleftrightarrow> s \<noteq> [] \<and> list_all p s"
proof (cases s)
  case Nil
  then show ?thesis
    by (simp add: Plus_def matches_Seq_iff matches_Cls_iff)
next
  case (Cons c cs)
  have "(\<exists>u v. c # cs = u @ v \<and> (\<exists>d. u = [d] \<and> p d) \<and> list_all p v) \<longleftrightarrow>
        p c \<and> list_all p cs"
    by (auto intro: exI[of _ "[c]"])
  with Cons show ?thesis
    by (simp add: Plus_def matches_Seq_iff matches_Cls_iff matches_Star_Cls)
qed

lemma matches_Rep_Cls: "matches (Rep n (Cls p)) s \<longleftrightarrow> length s = n \<and> list_all p s"
proof (induction n arbitrary: s)
  case 0
  then show ?case by (auto simp: matches.simps)
next
  case (Suc n)
  show ?case
  proof (cases s)
    case Nil
    then show ?thesis
      by (simp add: matches_Seq_iff matches_Cls_iff)
  next
    case (Cons c cs)
    have *: "(\<exists>u v. c # cs = u @ v \<and> (\<exists>d. u = [d] \<and> p d) \<and> length v = n \<and> list_all p v) \<longleftrightarrow>
          p c \<and> length cs = n \<and> list_all p cs"
      by (auto intro: exI[of _ "[c]"])
    have "matches (Rep (Suc n) (Cls p)) s \<longleftrightarrow>
          (\<exists>u v. s = u @ v \<and> (\<exists>d. u = [d] \<and> p d) \<and> length v = n \<and> list_all p v)"
      by (simp only: Rep.simps matches_Seq_iff matches_Cls_iff Suc.IH)
    with Cons * show ?thesis
      by (auto simp del: Rep.simps)
  qed
qed

lemma test_search_Cls: "test_search (Cls p) s \<longleftrightarrow> list_ex p s"
proof -
  have "test_search (Cls p) s \<longleftrightarrow> (\<exists>u v. s = u @ v \<and> (\<exists>x w. v = x @ w \<and> (\<exists>c. x = [c] \<and> p c)))"
    by (simp add: test_search_def matches_Seq_iff matches_Star_Cls matches_Cls_iff list_all_iff)
  also have "\<dots> \<longleftrightarrow> (\<exists>u c w. s = u @ c # w \<and> p c)"
  proof
    assume "\<exists>u v. s = u @ v \<and> (\<exists>x w. v = x @ w \<and> (\<exists>c. x = [c] \<and> p c))"
    then obtain u c w where "s = u @ [c] @ w" "p c"
      by blast
    then have "s = u @ c # w \<and> p c"
      by simp
    then show "\<exists>u c w. s = u @ c # w \<and> p c"
      by blast
  next
    assume "\<exists>u c w. s = u @ c # w \<and> p c"
    then obtain u c w where "s = u @ c # w" "p c"
      by blast
    then have "s = u @ (c # w) \<and> c # w = [c] @ w \<and> [c] = [c] \<and> p c"
      by simp
    then show "\<exists>u v. s = u @ v \<and> (\<exists>x w. v = x @ w \<and> (\<exists>c. x = [c] \<and> p c))"
      by blast
  qed
  also have "\<dots> \<longleftrightarrow> list_ex p s"
    unfolding list_ex_iff by (metis in_set_conv_decomp)
  finally show ?thesis .
qed

lemma matches_Opt_iff: "matches (Opt r) s \<longleftrightarrow> matches r s \<or> s = []"
  by (simp add: Opt_def matches.simps)

lemma matches_Chr_iff: "matches (Chr c) s \<longleftrightarrow> s = [of_char c]"
  by (auto simp: Chr_def matches_Cls_iff)

lemma digit_not_whitespace: "isDigit c \<Longrightarrow> \<not> isWhitespace c"
  by (auto simp: isDigit_def isWhitespace_def)

lemma trim_Nil_iff: "trim s = [] \<longleftrightarrow> list_all isWhitespace s"
proof
  assume "trim s = []"
  then have all: "\<forall>x\<in>set (dropWhile isWhitespace s). isWhitespace x"
    by (simp add: trim_def dropWhile_eq_Nil_conv del: set_rev) simp
  have "dropWhile isWhitespace s = []"
  proof (rule ccontr)
    assume ne: "dropWhile isWhitespace s \<noteq> []"
    then have "hd (dropWhile isWhitespace s) \<in> set (dropWhile isWhitespace s)"
      by simp
    with all have "isWhitespace (hd (dropWhile isWhitespace s))"
      by blast
    with hd_dropWhile [OF ne] show False
      by blast
  qed
  then show "list_all isWhitespace s"
    by (simp add: dropWhile_eq_Nil_conv list_all_iff)
next
  assume "list_all isWhitespace s"
  then have "dropWhile isWhitespace s = []"
    by (simp add: dropWhile_eq_Nil_conv list_all_iff)
  then show "trim s = []"
    unfolding trim_def by (simp only: rev.simps dropWhile.simps)
qed

lemma zip_regex_iff: "test_anchored zip_regex v \<longleftrightarrow> is_us_zip v"
proof -
  have "test_anchored zip_regex v \<longleftrightarrow>
        (\<exists>u w. v = u @ w \<and> (length u = 5 \<and> list_all isDigit u) \<and>
           ((\<exists>x y. w = x @ y \<and> x = [of_char CHR ''-''] \<and> length y = 4 \<and> list_all isDigit y) \<or>
            w = []))"
    by (simp only: test_anchored_def zip_regex_def matches_Seq_iff matches_Rep_Cls
        matches_Opt_iff matches_Chr_iff)
  also have "\<dots> \<longleftrightarrow> is_us_zip v"
  proof
    assume "\<exists>u w. v = u @ w \<and> (length u = 5 \<and> list_all isDigit u) \<and>
           ((\<exists>x y. w = x @ y \<and> x = [of_char CHR ''-''] \<and> length y = 4 \<and> list_all isDigit y) \<or>
            w = [])"
    then obtain u w where uw: "v = u @ w" "length u = 5" "list_all isDigit u"
      and w: "(\<exists>y. w = of_char CHR ''-'' # y \<and> length y = 4 \<and> list_all isDigit y) \<or> w = []"
      by auto
    from w show "is_us_zip v"
    proof
      assume "w = []"
      with uw show ?thesis by (simp add: is_us_zip_def)
    next
      assume "\<exists>y. w = of_char CHR ''-'' # y \<and> length y = 4 \<and> list_all isDigit y"
      then obtain y where "w = of_char CHR ''-'' # y" "length y = 4" "list_all isDigit y"
        by blast
      with uw show ?thesis
        by (simp add: is_us_zip_def nth_append)
    qed
  next
    assume z: "is_us_zip v"
    show "\<exists>u w. v = u @ w \<and> (length u = 5 \<and> list_all isDigit u) \<and>
           ((\<exists>x y. w = x @ y \<and> x = [of_char CHR ''-''] \<and> length y = 4 \<and> list_all isDigit y) \<or>
            w = [])"
    proof (cases "length v = 5")
      case True
      with z have "v = v @ [] \<and> length v = 5 \<and> list_all isDigit v"
        by (auto simp: is_us_zip_def)
      then show ?thesis by blast
    next
      case False
      with z have l: "length v = 10" and d1: "list_all isDigit (take 5 v)"
        and h: "v ! 5 = of_char CHR ''-''" and d2: "list_all isDigit (drop 6 v)"
        by (auto simp: is_us_zip_def)
      from l Cons_nth_drop_Suc [of 5 v] have "drop 5 v = v ! 5 # drop 6 v"
        by simp
      with h have "drop 5 v = [of_char CHR ''-''] @ drop 6 v"
        by simp
      moreover have "v = take 5 v @ drop 5 v"
        by simp
      moreover from l have "length (take 5 v) = 5" "length (drop 6 v) = 4"
        by simp_all
      ultimately show ?thesis
        using d1 d2 by blast
    qed
  qed
  finally show ?thesis .
qed

lemma is_us_zip_nonblank: "is_us_zip v \<Longrightarrow> trim v \<noteq> []"
proof -
  assume z: "is_us_zip v"
  then have "v \<noteq> []" "isDigit (hd v)"
    by (cases v; auto simp: is_us_zip_def)+
  then show ?thesis
    by (cases v) (auto simp: trim_Nil_iff dest: digit_not_whitespace)
qed

section \<open>Expiry mask\<close>

lemma replace_non_digits: "replace_all_empty (\<lambda>c. \<not> isDigit c) v = filter isDigit v"
  by (simp add: replace_all_empty_def)

text \<open>
  C9, as stated: the formatter is the mask of the specification. It is not: a fifth digit
  is dropped by the code and kept by the mask.
\<close>

theorem formatExpiryDate_not_spec_mask:
  "formatExpiryDate (js ''12345'') = js ''12/34'' \<and>
   expiry_mask_spec (js ''12345'') = js ''12/345'' \<and>
   formatExpiryDate (js ''12345'') \<noteq> expiry_mask_spec (js ''12345'')"
  by (simp add: formatExpiryDate_def expiry_mask_spec_def replace_all_empty_def substr_def
      js_def isDigit_def)

text \<open>
  C9, amended: for every input, the formatter strips the non-digits; with at least two
  digits left it returns the first two digits, a slash, and the third and fourth digit
  (as far as present), dropping every later digit; with fewer than two digits it returns
  the digits. So \<open>formatExpiryDate("1225") = "12/25"\<close> and \<open>formatExpiryDate("1") = "1"\<close>,
  and the result agrees with the specification's mask whenever at most four digits are
  left.
\<close>

theorem formatExpiryDate_correct:
  "formatExpiryDate v =
     (if length (filter isDigit v) \<ge> 2
      then take 2 (filter isDigit v) @ js ''/'' @ take 2 (drop 2 (filter isDigit v))
      else filter isDigit v) \<and>
   (length (filter isDigit v) \<le> 4 \<longrightarrow> formatExpiryDate v = expiry_mask_spec v) \<and>
   formatExpiryDate (js ''1225'') = js ''12/25'' \<and>
   formatExpiryDate (js ''1'') = js ''1''"
proof -
  have shape: "formatExpiryDate v =
     (if length (filter isDigit v) \<ge> 2
      then take 2 (filter isDigit v) @ js ''/'' @ take 2 (drop 2 (filter isDigit v))
      else filter isDigit v)"
    by (simp add: formatExpiryDate_def replace_non_digits substr_def Let_def)
  have short: "length (filter isDigit v) \<le> 4 \<longrightarrow> formatExpiryDate v = expiry_mask_spec v"
    by (simp add: shape expiry_mask_spec_def Let_def)
  have ex1: "formatExpiryDate (js ''1225'') = js ''12/25''"
    by (simp add: formatExpiryDate_def replace_all_empty_def substr_def js_def isDigit_def)
  have ex2: "formatExpiryDate (js ''1'') = js ''1''"
    by (simp add: formatExpiryDate_def replace_all_empty_def substr_def js_def isDigit_def)
  from shape short ex1 ex2 show ?thesis by blast
qed

theorem formatExpiryDate_correct_witness:
  "length (filter isDigit (js ''12/2'')) \<le> 4 \<and>
   formatExpiryDate (js ''12/2'') = expiry_mask_spec (js ''12/2'') \<and>
   formatExpiryDate (js ''12/2'') = js ''12/2''"
proof -
  have len: "length (filter isDigit (js ''12/2'')) \<le> 4"
    by (simp add: js_def isDigit_def)
  have val: "expiry_mask_spec (js ''12/2'') = js ''12/2''"
    by (simp add: expiry_mask_spec_def js_def isDigit_def)
  have "length (filter isDigit (js ''12/2'')) \<le> 4 \<longrightarrow>
        formatExpiryDate (js ''12/2'') = expiry_mask_spec (js ''12/2'')"
    using formatExpiryDate_correct [of "js ''12/2''"] by blast
  with len have "formatExpiryDate (js ''12/2'') = expiry_mask_spec (js ''12/2'')"
    by blast
  with len val show ?thesis by metis
qed

section \<open>ZIP and postal codes\<close>

lemma us_zip_examples:
  "\<not> is_us_zip (js ''1234'')" "is_us_zip (js ''12345'')" "is_us_zip (js ''12345-6789'')"
  by (simp_all add: is_us_zip_def js_def isDigit_def)

lemma trim_examples: "trim (js ''1234'') \<noteq> []"
  by (simp add: trim_def js_def isWhitespace_def)


lemma zip_validator_cases:
  "BillingAddressStep_validateField d ZipCode v =
     (if trim v = [] then Some (js ''ZIP/Postal code is required'')
      else if country d = js ''United States''
      then (if is_us_zip v then None
            else Some (js ''Please enter a valid ZIP code (12345 or 12345-6789)''))
      else (if 3 \<le> length (trim v) then None
            else Some (js ''Please enter a valid postal code'')))"
  by (simp add: zip_regex_iff not_less)

text \<open>
  C6: the billing step's validator for \<open>zipCode\<close> returns no error exactly when, for the
  country "United States", the value is a ZIP code \<^verbatim>\<open>\d{5}(-\d{4})?\<close>, and for any other
  country the trimmed value has at least three characters. A blank value gives the
  required error for every country; a non-blank value that fails gives the valid-ZIP-code
  error for the United States and the postal-code error elsewhere. For the United States
  "1234" gets the valid-ZIP-code error, and "12345" and "12345-6789" pass.
\<close>

theorem zipCode_validator:
  "(BillingAddressStep_validateField d ZipCode v = None \<longleftrightarrow>
     (if country d = js ''United States'' then is_us_zip v else 3 \<le> length (trim v))) \<and>
   BillingAddressStep_validateField d ZipCode v =
     (if trim v = [] then Some (js ''ZIP/Postal code is required'')
      else if country d = js ''United States''
      then (if is_us_zip v then None
            else Some (js ''Please enter a valid ZIP code (12345 or 12345-6789)''))
      else (if 3 \<le> length (trim v) then None
            else Some (js ''Please enter a valid postal code''))) \<and>
   (country d = js ''United States'' \<longrightarrow>
      BillingAddressStep_validateField d ZipCode (js ''1234'') =
        Some (js ''Please enter a valid ZIP code (12345 or 12345-6789)'') \<and>
      BillingAddressStep_validateField d ZipCode (js ''12345'') = None \<and>
      BillingAddressStep_validateField d ZipCode (js ''12345-6789'') = None)"
proof -
  have iff: "BillingAddressStep_validateField d ZipCode v = None \<longleftrightarrow>
     (if country d = js ''United States'' then is_us_zip v else 3 \<le> length (trim v))"
    unfolding zip_validator_cases using is_us_zip_nonblank [of v] by auto
  have ex: "country d = js ''United States'' \<longrightarrow>
      BillingAddressStep_validateField d ZipCode (js ''1234'') =
        Some (js ''Please enter a valid ZIP code (12345 or 12345-6789)'') \<and>
      BillingAddressStep_validateField d ZipCode (js ''12345'') = None \<and>
      BillingAddressStep_validateField d ZipCode (js ''12345-6789'') = None"
    using is_us_zip_nonblank [of "js ''12345''"] is_us_zip_nonblank [of "js ''12345-6789''"]
    by (simp only: zip_validator_cases) (simp add: us_zip_examples trim_examples)
  from iff ex zip_validator_cases [of d v] show ?thesis
    by blast
qed

theorem zipCode_validator_witness:
  "country \<lparr>addressLine1 = [], addressLine2 = [], city = [], state = [], zipCode = [],
            country = js ''United States''\<rparr> = js ''United States'' \<and>
   BillingAddressStep_validateField
     \<lparr>addressLine1 = [], addressLine2 = [], city = [], state = [], zipCode = [],
      country = js ''United States''\<rparr> ZipCode (js ''1234'') =
     Some (js ''Please enter a valid ZIP code (12345 or 12345-6789)'') \<and>
   BillingAddressStep_validateField
     \<lparr>addressLine1 = [], addressLine2 = [], city = [], state = [], zipCode = [],
      country = js ''United States''\<rparr> ZipCode (js ''12345-6789'') = None"
  using zipCode_validator
    [of "\<lparr>addressLine1 = [], addressLine2 = [], city = [], state = [], zipCode = [],
           country = js ''United States''\<rparr>" "js ''12345''"]
  by (simp del: BillingAddressStep_validateField.simps)

section \<open>Expiry dates\<close>

lemma expiry_format_iff:
  "expiry_format v \<longleftrightarrow>
     (\<exists>a b c d. v = [a, b, of_char CHR ''/'', c, d] \<and> isDigit a \<and> isDigit b \<and> isDigit c \<and> isDigit d)"
  by (rule expiry_format.cases [of v]) auto

lemma length_two_iff: "length u = 2 \<longleftrightarrow> (\<exists>a b. u = [a, b])"
  by (auto simp: length_Suc_conv eval_nat_numeral)

lemma expiry_regex_iff: "test_anchored expiry_regex v \<longleftrightarrow> expiry_format v"
proof -
  have "test_anchored expiry_regex v \<longleftrightarrow>
        (\<exists>u w. v = u @ w \<and> (length u = 2 \<and> list_all isDigit u) \<and>
           (\<exists>x y. w = x @ y \<and> x = [of_char CHR ''/''] \<and> length y = 2 \<and> list_all isDigit y))"
    by (simp only: test_anchored_def expiry_regex_def matches_Seq_iff matches_Rep_Cls
        matches_Chr_iff)
  also have "\<dots> \<longleftrightarrow>
     (\<exists>a b c d. v = [a, b, of_char CHR ''/'', c, d] \<and> isDigit a \<and> isDigit b \<and> isDigit c \<and> isDigit d)"
    unfolding length_two_iff by (auto intro: exI [of _ "[a, b]" for a b])
  finally show ?thesis
    by (simp only: expiry_format_iff)
qed

lemma digit_not_sign: "isDigit a \<Longrightarrow> a \<noteq> 43 \<and> a \<noteq> 45 \<and> a \<noteq> 47"
  by (auto simp: isDigit_def)

lemma parseInt_digits:
  assumes "ds \<noteq> []" "list_all isDigit ds"
  shows "parseInt ds = Num (decimal_value ds)"
proof -
  from assms obtain a r where ds: "ds = a # r" "isDigit a"
    by (cases ds) auto
  have t: "dropWhile isWhitespace ds = ds"
    using ds digit_not_whitespace [of a] by simp
  have neg: "(case ds of c # _ \<Rightarrow> c = 45 | [] \<Rightarrow> False) = False"
    using ds digit_not_sign [of a] by simp
  have u: "(case ds of c # r \<Rightarrow> if c = 43 \<or> c = 45 then r else ds | [] \<Rightarrow> ds) = ds"
    using ds digit_not_sign [of a] by simp
  have tw: "takeWhile isDigit ds = ds"
    using assms(2) by (simp add: takeWhile_eq_all_conv list_all_iff)
  show ?thesis
    unfolding parseInt_def Let_def t neg u tw using assms(1) by simp
qed

lemma parseInt_one: "isDigit a \<Longrightarrow> parseInt [a] = Num (digit_value a)"
  by (simp add: parseInt_digits decimal_value_def digit_value_def)

lemma parseInt_two:
  "isDigit a \<Longrightarrow> isDigit b \<Longrightarrow> parseInt [a, b] = Num (10 * digit_value a + digit_value b)"
  by (simp add: parseInt_digits decimal_value_def digit_value_def)

lemma split_expiry:
  "isDigit a \<Longrightarrow> isDigit b \<Longrightarrow> isDigit c \<Longrightarrow> isDigit d \<Longrightarrow>
   split_on (of_char CHR ''/'') [a, b, of_char CHR ''/'', c, d] = [[a, b], [c, d]]"
  using digit_not_sign [of a] digit_not_sign [of b] digit_not_sign [of c] digit_not_sign [of d]
  by simp

lemma expiry_format_nonblank: "expiry_format v \<Longrightarrow> trim v \<noteq> []"
  by (auto simp: expiry_format_iff trim_Nil_iff dest: digit_not_whitespace)

lemma expiry_validator_cases:
  "PaymentInfoStep_validateField now ExpiryDate v =
     (if trim v = [] then Some (js ''Expiry date is required'')
      else if \<not> expiry_format v then Some (js ''Please enter date as MM/YY'')
      else if expiry_month v < 1 \<or> expiry_month v > 12 then Some (js ''Invalid month'')
      else if strictly_before (expiry_year v, expiry_month v) (current_year now, current_month now)
      then Some (js ''Card has expired'')
      else None)"
proof (cases "expiry_format v")
  case False
  then show ?thesis
    by (simp add: expiry_regex_iff)
next
  case True
  then obtain a b c d where v: "v = [a, b, of_char CHR ''/'', c, d]"
    and dg: "isDigit a" "isDigit b" "isDigit c" "isDigit d"
    by (auto simp: expiry_format_iff)
  from True have nb: "trim v \<noteq> []"
    by (rule expiry_format_nonblank)
  have re: "test_anchored expiry_regex v"
    using True by (simp add: expiry_regex_iff)
  have parts: "split_on 47 v = [[a, b], [c, d]]"
    using split_expiry [OF dg] by (simp add: v)
  have m: "parseInt_opt (element [[a, b], [c, d]] 0) = Num (expiry_month v)"
    and y: "parseInt_opt (element [[a, b], [c, d]] (Suc 0)) = Num (expiry_year v)"
    using dg by (simp_all add: element_def parseInt_opt_def parseInt_two v)
  show ?thesis
    using True nb re
    by (simp add: parts m y Let_def strictly_before_def current_year_def current_month_def)
qed


lemma current_year_mod: "0 \<le> getFullYear now \<Longrightarrow> current_year now = getFullYear now mod 100"
  by (cases "getFullYear now = 0") (simp_all add: current_year_def)

text \<open>
  C5, as stated, lets the validator return only the bad-format, invalid-month or expired
  error when it returns one. On the empty string it returns the required error.
\<close>

theorem expiryDate_blank_is_required:
  "PaymentInfoStep_validateField \<lparr>getFullYear = 2026, getMonth = 10\<rparr> ExpiryDate [] =
     Some (js ''Expiry date is required'') \<and>
   js ''Expiry date is required'' \<noteq> js ''Please enter date as MM/YY'' \<and>
   js ''Expiry date is required'' \<noteq> js ''Invalid month'' \<and>
   js ''Expiry date is required'' \<noteq> js ''Card has expired''"
  by (simp add: trim_def js_def)

text \<open>
  C5, amended: for every value and every current date, the validator returns no error
  exactly when the value is two digits, a slash and two digits, its month is between 1
  and 12, and (year, month) is not strictly before (current year mod 100, current month).
  Otherwise it returns the required error when the trimmed value is empty, and else the
  bad-format, invalid-month or expired error, in this order of the checks.
\<close>

theorem expiryDate_validator:
  "(PaymentInfoStep_validateField now ExpiryDate v = None \<longleftrightarrow>
      expiry_format v \<and> 1 \<le> expiry_month v \<and> expiry_month v \<le> 12 \<and>
      \<not> strictly_before (expiry_year v, expiry_month v) (current_year now, current_month now)) \<and>
   PaymentInfoStep_validateField now ExpiryDate v =
     (if trim v = [] then Some (js ''Expiry date is required'')
      else if \<not> expiry_format v then Some (js ''Please enter date as MM/YY'')
      else if expiry_month v < 1 \<or> expiry_month v > 12 then Some (js ''Invalid month'')
      else if strictly_before (expiry_year v, expiry_month v) (current_year now, current_month now)
      then Some (js ''Card has expired'')
      else None) \<and>
   (0 \<le> getFullYear now \<longrightarrow> current_year now = getFullYear now mod 100)"
proof -
  have iff: "PaymentInfoStep_validateField now ExpiryDate v = None \<longleftrightarrow>
      expiry_format v \<and> 1 \<le> expiry_month v \<and> expiry_month v \<le> 12 \<and>
      \<not> strictly_before (expiry_year v, expiry_month v) (current_year now, current_month now)"
    unfolding expiry_validator_cases using expiry_format_nonblank [of v] by auto
  from iff expiry_validator_cases [of now v] current_year_mod [of now] show ?thesis
    by blast
qed

theorem expiryDate_validator_witness:
  "(0::int) \<le> getFullYear \<lparr>getFullYear = 2026, getMonth = 10\<rparr> \<and>
   current_year \<lparr>getFullYear = 2026, getMonth = 10\<rparr> = 26 \<and>
   current_month \<lparr>getFullYear = 2026, getMonth = 10\<rparr> = 11 \<and>
   expiry_format (js ''11/26'') \<and> expiry_month (js ''11/26'') = 11 \<and>
   expiry_year (js ''11/26'') = 26 \<and>
   PaymentInfoStep_validateField \<lparr>getFullYear = 2026, getMonth = 10\<rparr> ExpiryDate (js ''11/26'')
     = None"
proof -
  have facts: "expiry_format (js ''11/26'')" "expiry_month (js ''11/26'') = 11"
    "expiry_year (js ''11/26'') = 26"
    "current_year \<lparr>getFullYear = 2026, getMonth = 10\<rparr> = 26"
    "current_month \<lparr>getFullYear = 2026, getMonth = 10\<rparr> = 11"
    by (simp_all add: js_def isDigit_def digit_value_def current_year_def current_month_def)
  have "PaymentInfoStep_validateField \<lparr>getFullYear = 2026, getMonth = 10\<rparr> ExpiryDate
          (js ''11/26'') = None"
    using expiryDate_validator [of "\<lparr>getFullYear = 2026, getMonth = 10\<rparr>" "js ''11/26''"]
    by (simp add: facts strictly_before_def del: PaymentInfoStep_validateField.simps)
  with facts show ?thesis
    by simp
qed

section \<open>Card numbers\<close>

lemma luhn_sum_Cons: "luhn_sum (x # r) = x + luhn_sum (0 # r)"
  by (cases r) simp_all

lemma luhn_sum_zero_Cons: "luhn_sum (0 # x # r) = luhn_double x + luhn_sum r"
  by simp

lemma charAt_in_range: "n < length s \<Longrightarrow> charAt s (int n) = [s ! n]"
  by (simp add: charAt_def)

lemma luhn_loop_stop: "luhn_loop s (- 1) a sd = a"
  by (subst luhn_loop.simps) simp

lemma luhn_loop_step:
  assumes "n < length s" "isDigit (s ! n)"
  shows "luhn_loop s (int n) (Num a) sd =
         luhn_loop s (int n - 1)
           (Num (a + (if sd then luhn_double (digit_value (s ! n)) else digit_value (s ! n))))
           (\<not> sd)"
  using assms
  by (subst luhn_loop.simps)
     (simp add: charAt_in_range parseInt_one luhn_double_def Let_def mult.commute)

lemma luhn_loop_sum:
  assumes "list_all isDigit s"
  shows "k \<le> length s \<Longrightarrow>
         luhn_loop s (int k - 1) (Num a) sd =
         Num (a + (if sd then luhn_sum (0 # rev (map digit_value (take k s)))
                   else luhn_sum (rev (map digit_value (take k s)))))"
proof (induction k arbitrary: a sd)
  case 0
  then show ?case
    by (simp add: luhn_loop_stop)
next
  case (Suc n)
  then have n: "n < length s" "n \<le> length s"
    by simp_all
  with assms have dg: "isDigit (s ! n)"
    by (simp add: list_all_length)
  have tk: "rev (map digit_value (take (Suc n) s)) =
            digit_value (s ! n) # rev (map digit_value (take n s))"
    using n by (simp add: take_Suc_conv_app_nth)
  have "luhn_loop s (int (Suc n) - 1) (Num a) sd = luhn_loop s (int n) (Num a) sd"
    by simp
  also have "\<dots> = luhn_loop s (int n - 1)
           (Num (a + (if sd then luhn_double (digit_value (s ! n)) else digit_value (s ! n))))
           (\<not> sd)"
    using n(1) dg by (rule luhn_loop_step)
  also have "\<dots> = Num (a + (if sd then luhn_double (digit_value (s ! n)) else digit_value (s ! n)) +
        (if \<not> sd then luhn_sum (0 # rev (map digit_value (take n s)))
         else luhn_sum (rev (map digit_value (take n s)))))"
    using n(2) by (rule Suc.IH)
  also have "\<dots> = Num (a + (if sd then luhn_sum (0 # rev (map digit_value (take (Suc n) s)))
                   else luhn_sum (rev (map digit_value (take (Suc n) s)))))"
    unfolding tk
    by (cases sd) (simp_all add: luhn_sum_zero_Cons luhn_sum_Cons [of "digit_value (s ! n)"]
        del: luhn_sum.simps)
  finally show ?case .
qed

lemma js_rem_zero_iff: "num_eq (num_rem (Num S) (Num 10)) (Num 0) \<longleftrightarrow> S mod 10 = 0"
proof -
  have "sgn S * (\<bar>S\<bar> mod 10) = 0 \<longleftrightarrow> \<bar>S\<bar> mod 10 = 0"
    by (cases "S = 0") (auto simp: sgn_if)
  also have "\<dots> \<longleftrightarrow> S mod 10 = 0"
    by (simp add: mod_eq_0_iff_dvd)
  finally show ?thesis
    by simp
qed

lemma isValidCardNumber_iff: "isValidCardNumber s \<longleftrightarrow> card_number_rule isWhitespace s"
proof -
  define c where "c = filter (\<lambda>u. \<not> isWhitespace u) s"
  show ?thesis
  proof (cases "list_all isDigit c \<and> 13 \<le> length c \<and> length c \<le> 19")
    case False
    then show ?thesis
      by (auto simp: isValidCardNumber_def card_number_rule_def replace_all_empty_def
          test_anchored_def matches_Plus_Cls c_def Let_def)
  next
    case True
    then have dg: "list_all isDigit c" and ne: "c \<noteq> []"
      and len: "\<not> length c < 13" "\<not> length c > 19"
      by auto
    have "luhn_loop c (int (length c) - 1) (Num 0) False =
          Num (luhn_sum (rev (map digit_value c)))"
      using luhn_loop_sum [OF dg, of "length c" 0 False] by simp
    then have "num_eq (num_rem (luhn_loop c (int (length c) - 1) (Num 0) False) (Num 10)) (Num 0)
        \<longleftrightarrow> luhn_valid c"
      by (simp only: js_rem_zero_iff luhn_valid_def)
    with True dg ne len show ?thesis
      by (simp add: isValidCardNumber_def card_number_rule_def replace_all_empty_def
          test_anchored_def matches_Plus_Cls c_def [symmetric] Let_def)
  qed
qed

lemma card_number_examples:
  "card_number_rule isWhitespace (js ''4111111111111111'')"
  "\<not> card_number_rule isWhitespace (js ''4111111111111112'')"
  "card_number_rule isWhitespace (js ''4111111111111111'' @ [9])"
  "\<not> card_number_rule isSpace (js ''4111111111111111'' @ [9])"
  "card_number_rule isWhitespace (js ''4111 1111 1111 1111'')"
  by (simp_all add: card_number_rule_def js_def isWhitespace_def isSpace_def isDigit_def
      luhn_valid_def digit_value_def luhn_double_def)

text \<open>
  C1, as stated, removes the spaces only. The code removes every white-space character:
  sixteen valid digits followed by a TAB (code 9) are accepted, although with the spaces
  removed the string still holds the TAB and so does not consist of digits.
\<close>

theorem isValidCardNumber_accepts_tab:
  "isValidCardNumber (js ''4111111111111111'' @ [9]) \<and>
   \<not> card_number_rule isSpace (js ''4111111111111111'' @ [9])"
  by (simp add: isValidCardNumber_iff card_number_examples)

text \<open>
  C1, amended: for every input string, \<open>isValidCardNumber\<close> returns true exactly when the
  string with all white-space characters removed (the class \<^verbatim>\<open>\s\<close>) consists of digits
  only, has length 13 to 19, and passes the Luhn checksum; and
  \<open>isValidCardNumber("4111111111111111")\<close> is true, \<open>isValidCardNumber("4111111111111112")\<close>
  false.
\<close>

theorem isValidCardNumber_correct:
  "(isValidCardNumber s \<longleftrightarrow> card_number_rule isWhitespace s) \<and>
   isValidCardNumber (js ''4111111111111111'') \<and>
   \<not> isValidCardNumber (js ''4111111111111112'')"
  by (simp add: isValidCardNumber_iff card_number_examples)

theorem isValidCardNumber_correct_witness:
  "card_number_rule isWhitespace (js ''4111 1111 1111 1111'') \<and>
   isValidCardNumber (js ''4111 1111 1111 1111'')"
proof -
  have "isValidCardNumber (js ''4111 1111 1111 1111'') \<longleftrightarrow>
        card_number_rule isWhitespace (js ''4111 1111 1111 1111'')"
    using isValidCardNumber_correct [of "js ''4111 1111 1111 1111''"] by blast
  with card_number_examples(5) show ?thesis
    by blast
qed

section \<open>Card number formatting\<close>

lemma digit_not_line_terminator: "isDigit c \<Longrightarrow> \<not> isLineTerminator c"
  by (auto simp: isDigit_def isLineTerminator_def)

lemma clean_card_value:
  "replace_all_empty (\<lambda>c. \<not> isDigit c) (replace_all_empty isWhitespace v) = filter isDigit v"
proof -
  have "(\<lambda>c. \<not> isWhitespace c \<and> isDigit c) = isDigit"
    using digit_not_whitespace by auto
  then show ?thesis
    by (simp add: replace_all_empty_def)
qed

lemma match_dot_1_4_Nil: "match_dot_1_4 [] = []"
  by (subst match_dot_1_4.simps) simp

lemma match_dot_1_4_group4:
  "list_all (\<lambda>c. \<not> isLineTerminator c) s \<Longrightarrow> match_dot_1_4 s = group4 s"
proof (induction s rule: group4.induct)
  case (1 a b c d r)
  then show ?case
    by (subst match_dot_1_4.simps) simp
qed ((subst match_dot_1_4.simps)?, simp add: match_dot_1_4_Nil)+

lemma join_Cons: "join sep (x # xs) = x @ (if xs = [] then [] else sep @ join sep xs)"
  by (cases xs) simp_all

lemma group4_Nil_iff: "group4 xs = [] \<longleftrightarrow> xs = []"
  by (rule group4.cases [of xs]) simp_all

lemma group4_short: "length xs < 4 \<Longrightarrow> xs \<noteq> [] \<Longrightarrow> group4 xs = [xs]"
  by (rule group4.cases [of xs]) simp_all

lemma joined_four:
  "join sep (group4 (a # b # c # d # r)) =
     [a, b, c, d] @ (if r = [] then [] else sep @ join sep (group4 r))"
  by (simp add: join_Cons group4_Nil_iff)

lemma take_joined:
  "take (5 * k - 1) (join [sp] (group4 xs)) = join [sp] (group4 (take (4 * k) xs))"
proof (induction k arbitrary: xs)
  case 0
  show ?case by simp
next
  case (Suc k)
  show ?case
  proof (cases "length xs < 4")
    case True
    then show ?thesis
      by (cases "xs = []") (simp_all add: group4_short)
  next
    case False
    then obtain a b c d r where xs: "xs = a # b # c # d # r"
      by (rule_tac group4.cases [of xs]) auto
    show ?thesis
    proof (cases "r = [] \<or> k = 0")
      case True
      then show ?thesis
        unfolding xs by (auto simp: joined_four simp del: group4.simps)
    next
      case False
      then have r: "r \<noteq> []" and k: "0 < k" "take (4 * k) r \<noteq> []"
        by auto
      from k(1) have "take (5 * Suc k - 1) (join [sp] (group4 xs)) =
                 [a, b, c, d, sp] @ take (5 * k - 1) (join [sp] (group4 r))"
        unfolding xs joined_four using r by (cases k) (simp_all add: take_Cons')
      also have "\<dots> = [a, b, c, d, sp] @ join [sp] (group4 (take (4 * k) r))"
        by (simp only: Suc.IH)
      also have "\<dots> = join [sp] (group4 (a # b # c # d # take (4 * k) r))"
        unfolding joined_four using k(2) by simp
      also have "a # b # c # d # take (4 * k) r = take (4 * Suc k) xs"
        unfolding xs by (simp add: take_Cons')
      finally show ?thesis .
    qed
  qed
qed

lemma space_not_digit: "\<not> isDigit 32"
  by (simp add: isDigit_def)

lemma digits_of_joined:
  "list_all isDigit xs \<Longrightarrow> filter isDigit (join [32] (group4 xs)) = xs"
proof (induction xs rule: group4.induct)
  case (1 a b c d r)
  then show ?case
    by (simp add: joined_four space_not_digit del: group4.simps)
qed simp_all

lemma formatCardNumber_joined:
  "formatCardNumber v = join [32] (group4 (take 16 (filter isDigit v)))"
proof -
  have "list_all (\<lambda>c. \<not> isLineTerminator c) (filter isDigit v)"
    by (simp add: list_all_iff digit_not_line_terminator)
  then have "formatCardNumber v = take 19 (join [32] (group4 (filter isDigit v)))"
    by (simp add: formatCardNumber_def clean_card_value match_dot_1_4_group4 substr_def js_def)
  also have "\<dots> = join [32] (group4 (take 16 (filter isDigit v)))"
    using take_joined [of 4 32 "filter isDigit v"] by simp
  finally show ?thesis .
qed

lemma formatCardNumber_spec: "formatCardNumber v = card_format_spec v"
  using take_joined [of 4 32 "filter isDigit v"]
  by (simp add: formatCardNumber_joined card_format_spec_def js_def)

lemma digits_of_formatCardNumber:
  "filter isDigit (formatCardNumber v) = take 16 (filter isDigit v)"
proof -
  have "list_all isDigit (take 16 (filter isDigit v))"
    by (auto simp: list_all_iff dest: in_set_takeD)
  then show ?thesis
    by (simp only: formatCardNumber_joined digits_of_joined)
qed

lemma formatCardNumber_idem: "formatCardNumber (formatCardNumber v) = formatCardNumber v"
  by (simp add: formatCardNumber_joined [of "formatCardNumber v"] digits_of_formatCardNumber)
     (simp add: formatCardNumber_joined)

lemma formatCardNumber_example:
  "formatCardNumber (js ''4111111111111111'') = js ''4111 1111 1111 1111''"
  by (simp add: formatCardNumber_joined js_def isDigit_def)


text \<open>
  C3: \<open>formatCardNumber\<close> strips the non-digit characters, groups the digits into chunks
  of four joined by single spaces and cuts the result to 19 characters; formatting its own
  output again changes nothing; and \<open>formatCardNumber("4111111111111111")\<close> is
  \<open>"4111 1111 1111 1111"\<close>.
\<close>

theorem formatCardNumber_correct:
  "formatCardNumber v = card_format_spec v \<and>
   formatCardNumber (formatCardNumber v) = formatCardNumber v \<and>
   formatCardNumber (js ''4111111111111111'') = js ''4111 1111 1111 1111''"
  using formatCardNumber_spec [of v] formatCardNumber_idem [of v] formatCardNumber_example
  by blast

section \<open>The stored card number\<close>

lemma handleInputChange_data:
  "pi_data (PaymentInfoStep_handleInputChange now st field v) =
     PaymentInfoData_set (pi_data st) field
       (if field = CardNumber then formatCardNumber v
        else if field = ExpiryDate then formatExpiryDate v
        else if field = Cvv then substr (replace_all_empty (\<lambda>c. \<not> isDigit c) v) 0 4
        else v)"
  by (simp add: PaymentInfoStep_handleInputChange_def Let_def)

lemma handleInputChange_cardNumber:
  "cardNumber (pi_data (PaymentInfoStep_handleInputChange now st field v)) =
     (if field = CardNumber then formatCardNumber v else cardNumber (pi_data st))"
  unfolding handleInputChange_data by (cases field) simp_all

lemma handleFieldBlur_data: "pi_data (PaymentInfoStep_handleFieldBlur now st field) = pi_data st"
  by (simp add: PaymentInfoStep_handleFieldBlur_def Let_def)

lemma formatted_digit_count: "length (filter isDigit (formatCardNumber v)) \<le> 16"
  by (simp add: digits_of_formatCardNumber)

lemma payment_step_digit_count:
  "length (filter isDigit (cardNumber (pi_data st))) \<le> 16 \<Longrightarrow>
   length (filter isDigit (cardNumber (pi_data (payment_step st ev)))) \<le> 16"
  by (cases ev) (simp_all add: handleInputChange_cardNumber handleFieldBlur_data formatted_digit_count)

lemma payment_run_digit_count:
  "length (filter isDigit (cardNumber (pi_data st))) \<le> 16 \<Longrightarrow>
   length (filter isDigit (cardNumber (pi_data (foldl payment_step st evs)))) \<le> 16"
proof (induction evs arbitrary: st)
  case Nil
  then show ?case by simp
next
  case (Cons ev evs)
  from Cons.prems have "length (filter isDigit (cardNumber (pi_data (payment_step st ev)))) \<le> 16"
    by (rule payment_step_digit_count)
  then show ?case
    by (simp add: Cons.IH)
qed

lemma payment_reachable_digit_count:
  "length (filter isDigit (cardNumber (pi_data (foldl payment_step payment_initial evs)))) \<le> 16"
  by (rule payment_run_digit_count) (simp add: payment_initial_def)


lemma long_card_numbers:
  "card_number_rule isWhitespace (js ''41111111111111113'')"
  "card_number_rule isWhitespace (js ''411111111111111100'')"
  "card_number_rule isWhitespace (js ''4111111111111111003'')"
  by (simp_all add: card_number_rule_def js_def isWhitespace_def isDigit_def
      luhn_valid_def digit_value_def luhn_double_def)

text \<open>
  C10: the output of \<open>formatCardNumber\<close> holds at most 16 digits; \<open>handleInputChange\<close>
  stores the formatted value as the card number; so after any sequence of changes and
  blurs on the payment step the stored card number holds at most 16 digits, and no card
  number with more than 16 digits is ever stored, although \<open>isValidCardNumber\<close> accepts
  numbers of 17, 18 and 19 digits.
\<close>

theorem stored_cardNumber_digits:
  "length (filter isDigit (formatCardNumber v)) \<le> 16 \<and>
   cardNumber (pi_data (PaymentInfoStep_handleInputChange now st CardNumber v)) =
     formatCardNumber v \<and>
   length (filter isDigit (cardNumber (pi_data (foldl payment_step payment_initial evs)))) \<le> 16 \<and>
   (isValidCardNumber c \<and> 16 < length (filter isDigit c) \<longrightarrow>
      cardNumber (pi_data (foldl payment_step payment_initial evs)) \<noteq> c) \<and>
   isValidCardNumber (js ''41111111111111113'') \<and>
   isValidCardNumber (js ''411111111111111100'') \<and>
   isValidCardNumber (js ''4111111111111111003'')"
proof -
  have reach: "length (filter isDigit
      (cardNumber (pi_data (foldl payment_step payment_initial evs)))) \<le> 16"
    by (rule payment_reachable_digit_count)
  then have "isValidCardNumber c \<and> 16 < length (filter isDigit c) \<longrightarrow>
      cardNumber (pi_data (foldl payment_step payment_initial evs)) \<noteq> c"
    by auto
  moreover have "cardNumber (pi_data (PaymentInfoStep_handleInputChange now st CardNumber v)) =
     formatCardNumber v"
    by (simp add: handleInputChange_cardNumber)
  moreover have "isValidCardNumber (js ''41111111111111113'')"
    "isValidCardNumber (js ''411111111111111100'')"
    "isValidCardNumber (js ''4111111111111111003'')"
    by (simp_all only: isValidCardNumber_iff long_card_numbers)
  ultimately show ?thesis
    using reach formatted_digit_count [of v] by blast
qed

theorem stored_cardNumber_digits_witness:
  "isValidCardNumber (js ''41111111111111113'') \<and>
   16 < length (filter isDigit (js ''41111111111111113'')) \<and>
   cardNumber (pi_data (foldl payment_step payment_initial
     [Change \<lparr>getFullYear = 2026, getMonth = 10\<rparr> CardNumber (js ''41111111111111113'')])) \<noteq>
     js ''41111111111111113'' \<and>
   cardNumber (pi_data (foldl payment_step payment_initial
     [Change \<lparr>getFullYear = 2026, getMonth = 10\<rparr> CardNumber (js ''41111111111111113'')])) =
     js ''4111 1111 1111 1111''"
proof -
  have len: "16 < length (filter isDigit (js ''41111111111111113''))"
    by (simp add: js_def isDigit_def)
  have stored: "cardNumber (pi_data (foldl payment_step payment_initial
     [Change \<lparr>getFullYear = 2026, getMonth = 10\<rparr> CardNumber (js ''41111111111111113'')])) =
     js ''4111 1111 1111 1111''"
    by (simp add: handleInputChange_cardNumber formatCardNumber_joined js_def isDigit_def)
  from len stored
    stored_cardNumber_digits [of "js ''41111111111111113''" "\<lparr>getFullYear = 2026, getMonth = 10\<rparr>"
      payment_initial
      "[Change \<lparr>getFullYear = 2026, getMonth = 10\<rparr> CardNumber (js ''41111111111111113'')]"
      "js ''41111111111111113''"]
  show ?thesis
    by blast
qed

section \<open>Password strength score\<close>

lemma special_class: "(u \<in> set (js special_characters)) = isSpecial u"
  by (auto simp add: js_def special_characters_def isSpecial_def)

lemma criteria_tests:
  "test_search (Range CHR ''A'' CHR ''Z'') pwd \<longleftrightarrow> list_ex isUpper pwd"
  "test_search (Range CHR ''a'' CHR ''z'') pwd \<longleftrightarrow> list_ex isLower pwd"
  "test_search (OneOf special_characters) pwd \<longleftrightarrow> list_ex isSpecial pwd"
  by (simp_all add: Range_def OneOf_def test_search_Cls isUpper_def isLower_def special_class
      list_ex_iff)

lemma getPasswordStrength_count: "getPasswordStrength pwd = criteria_met pwd"
proof (cases "pwd = []")
  case True
  then show ?thesis
    by (simp add: getPasswordStrength_def criteria_met_def)
next
  case False
  then show ?thesis
    by (simp add: getPasswordStrength_def PASSWORD_CRITERIA_def criteria_met_def criteria_tests
        test_search_Cls)
qed



lemma password_examples:
  "criteria_met (js ''Abcdef1!'') = 5" "criteria_met (js ''abcdef'') = 1"
  "criteria_met (js ''Abcdefg1_'') = 4" "criteria_worded (js ''Abcdefg1_'') = 5"
  "criteria_worded (js ''Abcdef1!'') = 5"
  by (simp_all add: criteria_met_def criteria_worded_def js_def isUpper_def isLower_def
      isDigit_def isSpecial_def isSymbol_def)







section \<open>Navigation and submission\<close>

lemma steps_length: "int (length ONBOARDING_STEPS) - 1 = 4"
  by (simp add: ONBOARDING_STEPS_def)

lemma handleNext_eq:
  "handleNext st =
     st\<lparr>currentStep := (if currentStep st < 4 then currentStep st + 1 else currentStep st)\<rparr>"
  by (simp add: handleNext_def steps_length)

lemma handlePrevious_eq:
  "handlePrevious st =
     st\<lparr>currentStep := (if currentStep st > 0 then currentStep st - 1 else currentStep st)\<rparr>"
  by (simp add: handlePrevious_def)

lemma flow_step_range:
  "0 \<le> currentStep st \<and> currentStep st \<le> 4 \<Longrightarrow>
   0 \<le> currentStep (flow_step st a) \<and> currentStep (flow_step st a) \<le> 4"
  by (cases a)
     (auto simp: handleNext_eq handlePrevious_eq updateFormData_def submit_terms_def
       TermsConfirmationStep_handleSubmit_def OnboardingFlow_handleSubmit_def)

lemma flow_run_range:
  "0 \<le> currentStep st \<and> currentStep st \<le> 4 \<Longrightarrow>
   0 \<le> currentStep (foldl flow_step st as) \<and> currentStep (foldl flow_step st as) \<le> 4"
proof (induction as arbitrary: st)
  case Nil
  then show ?case by simp
next
  case (Cons a as)
  from Cons.prems have "0 \<le> currentStep (flow_step st a) \<and> currentStep (flow_step st a) \<le> 4"
    by (rule flow_step_range)
  then have "0 \<le> currentStep (foldl flow_step (flow_step st a) as) \<and>
             currentStep (foldl flow_step (flow_step st a) as) \<le> 4"
    by (rule Cons.IH)
  then show ?case by simp
qed

lemma flow_reachable_range:
  "0 \<le> currentStep (foldl flow_step flow_initial as) \<and>
   currentStep (foldl flow_step flow_initial as) \<le> 4"
  by (rule flow_run_range) (simp add: flow_initial_def)

lemma previous_then_next:
  "0 < currentStep st \<Longrightarrow> currentStep st \<le> 4 \<Longrightarrow> handleNext (handlePrevious st) = st"
  by (simp add: handleNext_eq handlePrevious_eq)

lemma previous_offered_iff: "previous_offered st \<longleftrightarrow> 0 < currentStep st \<and> currentStep st \<le> 4"
proof (cases "0 \<le> currentStep st \<and> currentStep st < 5")
  case False
  then show ?thesis
    by (auto simp: previous_offered_def renderCurrentStep_def ONBOARDING_STEPS_def)
next
  case True
  then have "currentStep st = 0 \<or> currentStep st = 1 \<or> currentStep st = 2 \<or> currentStep st = 3
      \<or> currentStep st = 4"
    by arith
  then show ?thesis
    by (auto simp: previous_offered_def renderCurrentStep_def ONBOARDING_STEPS_def Let_def)
qed

lemma submit_terms_eq:
  "submit_terms st = (if termsAccepted (formData st) then OnboardingFlow_handleSubmit st else st)"
  by (simp add: submit_terms_def TermsConfirmationStep_handleSubmit_def)

text \<open>
  C7, as stated, has previous followed by next restore the index from every state. From
  the initial index 0 \<open>handlePrevious\<close> changes nothing and \<open>handleNext\<close> then moves to 1.
\<close>

theorem previous_next_from_first_step:
  "currentStep flow_initial = 0 \<and>
   currentStep (handleNext (handlePrevious flow_initial)) = 1 \<and>
   formData (handleNext (handlePrevious flow_initial)) = formData flow_initial"
  by (simp add: handleNext_eq handlePrevious_eq flow_initial_def)

text \<open>
  C7, amended: \<open>handleNext\<close> and \<open>handlePrevious\<close> change the step index only and leave
  the form data (and the rest of the state) as it is; \<open>handleNext\<close> adds one only below 4,
  \<open>handlePrevious\<close> subtracts one only above 0; from the initial state the index stays
  within 0 and 4 under every sequence of the controller's handlers; previous followed by
  next never changes the form data, and restores the whole state when the index is above
  0, which are the steps that are given \<open>handlePrevious\<close>.
\<close>

theorem navigation_frame:
  "handleNext st =
     st\<lparr>currentStep := (if currentStep st < 4 then currentStep st + 1 else currentStep st)\<rparr> \<and>
   handlePrevious st =
     st\<lparr>currentStep := (if currentStep st > 0 then currentStep st - 1 else currentStep st)\<rparr> \<and>
   formData (handleNext st) = formData st \<and>
   formData (handlePrevious st) = formData st \<and>
   0 \<le> currentStep (foldl flow_step flow_initial as) \<and>
   currentStep (foldl flow_step flow_initial as) \<le> 4 \<and>
   formData (handleNext (handlePrevious st)) = formData st \<and>
   (0 < currentStep st \<and> currentStep st \<le> 4 \<longrightarrow> handleNext (handlePrevious st) = st) \<and>
   (previous_offered st \<longleftrightarrow> 0 < currentStep st \<and> currentStep st \<le> 4)"
proof -
  have "formData (handleNext st) = formData st" "formData (handlePrevious st) = formData st"
    "formData (handleNext (handlePrevious st)) = formData st"
    by (simp_all add: handleNext_eq handlePrevious_eq)
  moreover have "0 < currentStep st \<and> currentStep st \<le> 4 \<longrightarrow> handleNext (handlePrevious st) = st"
    by (simp add: previous_then_next)
  ultimately show ?thesis
    using handleNext_eq [of st] handlePrevious_eq [of st] flow_reachable_range [of as]
      previous_offered_iff [of st]
    by blast
qed

theorem navigation_frame_witness:
  "0 < currentStep (foldl flow_step flow_initial [Next, Next]) \<and>
   currentStep (foldl flow_step flow_initial [Next, Next]) \<le> 4 \<and>
   currentStep (foldl flow_step flow_initial [Next, Next]) = 2 \<and>
   currentStep (handlePrevious (foldl flow_step flow_initial [Next, Next])) = 1 \<and>
   handleNext (handlePrevious (foldl flow_step flow_initial [Next, Next])) =
     foldl flow_step flow_initial [Next, Next]"
proof -
  have two: "currentStep (foldl flow_step flow_initial [Next, Next]) = 2"
    by (simp add: handleNext_eq flow_initial_def)
  then have one: "currentStep (handlePrevious (foldl flow_step flow_initial [Next, Next])) = 1"
    by (simp add: handlePrevious_eq)
  from two have "0 < currentStep (foldl flow_step flow_initial [Next, Next]) \<and>
      currentStep (foldl flow_step flow_initial [Next, Next]) \<le> 4"
    by simp
  with navigation_frame [of "foldl flow_step flow_initial [Next, Next]" "[]"] two one
  show ?thesis
    by blast
qed

text \<open>
  C8: on the terms step the submit handler calls \<open>onSubmit\<close> exactly when the terms are
  accepted. Mounted in the controller, it leaves the state as it is when the terms are not
  accepted, whatever the other fields hold, and runs the controller's account creation
  when they are.
\<close>

theorem terms_gate_submit:
  "(OnSubmit \<in> set (TermsConfirmationStep_handleSubmit accepted) \<longleftrightarrow> accepted) \<and>
   submit_terms st =
     (if termsAccepted (formData st) then OnboardingFlow_handleSubmit st else st) \<and>
   (\<not> termsAccepted (formData st) \<longrightarrow> submit_terms st = st) \<and>
   (termsAccepted (formData st) \<longrightarrow>
      effects (submit_terms st) =
        effects st @
          [ConsoleLog (formData st),
           Alert (js ''Account created successfully! Welcome to SARAS Ultimate.'')])"
  by (simp add: submit_terms_eq TermsConfirmationStep_handleSubmit_def
      OnboardingFlow_handleSubmit_def)

theorem terms_gate_submit_witness:
  "\<not> termsAccepted (formData flow_initial) \<and>
   submit_terms flow_initial = flow_initial \<and>
   termsAccepted (formData (updateFormData
     \<lparr>personalInfo_opt = None, accountSetup_opt = None, billingAddress_opt = None,
      paymentInfo_opt = None, termsAccepted_opt = Some True\<rparr> flow_initial)) \<and>
   length (effects (submit_terms (updateFormData
     \<lparr>personalInfo_opt = None, accountSetup_opt = None, billingAddress_opt = None,
      paymentInfo_opt = None, termsAccepted_opt = Some True\<rparr> flow_initial))) = 2"
proof -
  have no: "\<not> termsAccepted (formData flow_initial)"
    by (simp add: flow_initial_def)
  have yes: "termsAccepted (formData (updateFormData
     \<lparr>personalInfo_opt = None, accountSetup_opt = None, billingAddress_opt = None,
      paymentInfo_opt = None, termsAccepted_opt = Some True\<rparr> flow_initial))"
    by (simp add: updateFormData_def)
  have empty: "effects (updateFormData
     \<lparr>personalInfo_opt = None, accountSetup_opt = None, billingAddress_opt = None,
      paymentInfo_opt = None, termsAccepted_opt = Some True\<rparr> flow_initial) = []"
    by (simp add: updateFormData_def flow_initial_def)
  from no terms_gate_submit [of True flow_initial] have a: "submit_terms flow_initial = flow_initial"
    by blast
  from yes terms_gate_submit [of True "updateFormData
     \<lparr>personalInfo_opt = None, accountSetup_opt = None, billingAddress_opt = None,
      paymentInfo_opt = None, termsAccepted_opt = Some True\<rparr> flow_initial"]
  have "effects (submit_terms (updateFormData
     \<lparr>personalInfo_opt = None, accountSetup_opt = None, billingAddress_opt = None,
      paymentInfo_opt = None, termsAccepted_opt = Some True\<rparr> flow_initial)) =
     effects (updateFormData
     \<lparr>personalInfo_opt = None, accountSetup_opt = None, billingAddress_opt = None,
      paymentInfo_opt = None, termsAccepted_opt = Some True\<rparr> flow_initial) @
          [ConsoleLog (formData (updateFormData
     \<lparr>personalInfo_opt = None, accountSetup_opt = None, billingAddress_opt = None,
      paymentInfo_opt = None, termsAccepted_opt = Some True\<rparr> flow_initial)),
           Alert (js ''Account created successfully! Welcome to SARAS Ultimate.'')]"
    by blast
  then have "length (effects (submit_terms (updateFormData
     \<lparr>personalInfo_opt = None, accountSetup_opt = None, billingAddress_opt = None,
      paymentInfo_opt = None, termsAccepted_opt = Some True\<rparr> flow_initial))) = 2"
    by (simp only: empty) simp
  with no yes a show ?thesis
    by blast
qed

section \<open>The wizard and the single page\<close>

lemma truthy_simps:
  "truthy None = False" "truthy (Some (js (c # cs))) = True"
  by (simp_all add: truthy_def js_def)

lemma validate_entries_step_fst:
  "distinct (map fst es) \<Longrightarrow>
   fst (foldl (\<lambda>(newErrors, isValid) (field, val).
              if truthy (vf field val) then (newErrors(field := vf field val), False)
              else (newErrors, isValid)) (E, V) es) f =
   (case map_of es f of
      None \<Rightarrow> E f
    | Some v \<Rightarrow> if truthy (vf f v) then vf f v else E f)"
proof (induction es arbitrary: E V f)
  case Nil
  show ?case by simp
next
  case (Cons e es)
  obtain k v where e: "e = (k, v)"
    by (cases e)
  from Cons.prems e have d: "distinct (map fst es)" and k: "map_of es k = None"
    by (auto simp: map_of_eq_None_iff)
  show ?case
    unfolding e using k
    by (simp add: Cons.IH [OF d] split: option.splits)
qed

lemma validate_entries_step_snd:
  "snd (foldl (\<lambda>(newErrors, isValid) (field, val).
              if truthy (vf field val) then (newErrors(field := vf field val), False)
              else (newErrors, isValid)) (E, V) es) \<longleftrightarrow>
   V \<and> list_all (\<lambda>(k, v). \<not> truthy (vf k v)) es"
proof (induction es arbitrary: E V)
  case Nil
  show ?case by simp
next
  case (Cons e es)
  obtain k v where e: "e = (k, v)"
    by (cases e)
  show ?case
    unfolding e by (simp add: Cons.IH)
qed

lemma validate_entries_fst:
  "distinct (map fst es) \<Longrightarrow>
   fst (validate_entries vf es) f =
     (case map_of es f of None \<Rightarrow> None | Some v \<Rightarrow> if truthy (vf f v) then vf f v else None)"
  unfolding validate_entries_def Let_def by (simp add: validate_entries_step_fst)

lemma validate_entries_snd:
  "snd (validate_entries vf es) \<longleftrightarrow> list_all (\<lambda>(k, v). \<not> truthy (vf k v)) es"
  unfolding validate_entries_def Let_def by (simp add: validate_entries_step_snd)

lemma flag_fst: "fst (flag b g m st) f = (if b \<and> f = g then Some (js m) else fst st f)"
  by (cases st) (simp add: flag_def)

lemma flag_snd: "snd (flag b g m st) \<longleftrightarrow> \<not> b \<and> snd st"
  by (cases st) (simp add: flag_def)

lemma personal_truthy:
  "truthy (PersonalInfoStep_validateField f v) \<longleftrightarrow> PersonalInfoStep_validateField f v \<noteq> None"
  by (cases f) (simp_all add: truthy_simps)

lemma billing_truthy:
  "truthy (BillingAddressStep_validateField d f v) \<longleftrightarrow>
   BillingAddressStep_validateField d f v \<noteq> None"
  by (cases f) (simp_all add: truthy_simps)

lemma payment_truthy:
  "truthy (PaymentInfoStep_validateField now f v) \<longleftrightarrow>
   PaymentInfoStep_validateField now f v \<noteq> None"
  by (cases f) (simp_all add: truthy_simps Let_def)

lemma personal_errors:
  "fst (PersonalInfoStep_validateForm p) f =
     (if f = FirstName then PersonalInfoStep_validateField FirstName (firstName p)
      else if f = LastName then PersonalInfoStep_validateField LastName (lastName p)
      else if f = Email then PersonalInfoStep_validateField Email (email p)
      else None)"
  unfolding PersonalInfoStep_validateForm_def PersonalInfoData_entries_def
  by (simp add: validate_entries_fst personal_truthy del: PersonalInfoStep_validateField.simps)

lemma billing_errors:
  "fst (BillingAddressStep_validateForm b) f =
     (if f = AddressLine1 then BillingAddressStep_validateField b AddressLine1 (addressLine1 b)
      else if f = City then BillingAddressStep_validateField b City (city b)
      else if f = State then BillingAddressStep_validateField b State (state b)
      else if f = ZipCode then BillingAddressStep_validateField b ZipCode (zipCode b)
      else if f = Country then BillingAddressStep_validateField b Country (country b)
      else None)"
  unfolding BillingAddressStep_validateForm_def BillingAddressData_required_def
  by (simp add: validate_entries_fst billing_truthy del: BillingAddressStep_validateField.simps)

lemma payment_errors:
  "fst (PaymentInfoStep_validateForm now p) f =
     (if f = CardNumber then PaymentInfoStep_validateField now CardNumber (cardNumber p)
      else if f = ExpiryDate then PaymentInfoStep_validateField now ExpiryDate (expiryDate p)
      else if f = Cvv then PaymentInfoStep_validateField now Cvv (cvv p)
      else if f = CardholderName
      then PaymentInfoStep_validateField now CardholderName (cardholderName p)
      else None)"
  unfolding PaymentInfoStep_validateForm_def PaymentInfoData_entries_def
  by (simp add: validate_entries_fst payment_truthy del: PaymentInfoStep_validateField.simps)

lemma account_errors:
  "fst (AccountSetupStep_validateForm a) f =
     (if f = Password
      then (if password a = [] then Some (js ''Password is required'')
            else if getPasswordStrength (password a) < 5
            then Some (js ''Password must meet all security requirements'')
            else None)
      else if f = ConfirmPassword
      then (if confirmPassword a = [] then Some (js ''Password confirmation is required'')
            else if password a \<noteq> confirmPassword a then Some (js ''Passwords do not match'')
            else None)
      else None)"
  by (simp add: AccountSetupStep_validateForm_def Let_def flag_fst)

lemma single_page_errors:
  "fst (SinglePageOnboarding_validateForm d) f =
     (case f of
        FirstName \<Rightarrow> if trim (firstName (personalInfo d)) = []
                     then Some (js ''First name is required'') else None
      | LastName \<Rightarrow> if trim (lastName (personalInfo d)) = []
                    then Some (js ''Last name is required'') else None
      | Email \<Rightarrow> if trim (email (personalInfo d)) = [] then Some (js ''Email is required'')
                 else if \<not> test_anchored email_regex (email (personalInfo d))
                 then Some (js ''Please enter a valid email address'') else None
      | Password \<Rightarrow> if getPasswordStrength (password (accountSetup d)) < 5
                    then Some (js ''Password must meet all security requirements'') else None
      | ConfirmPassword \<Rightarrow> if password (accountSetup d) \<noteq> confirmPassword (accountSetup d)
                           then Some (js ''Passwords do not match'') else None
      | AddressLine1 \<Rightarrow> if trim (addressLine1 (billingAddress d)) = []
                        then Some (js ''Street address is required'') else None
      | AddressLine2 \<Rightarrow> None
      | City \<Rightarrow> if trim (city (billingAddress d)) = [] then Some (js ''City is required'')
                else None
      | State \<Rightarrow> if trim (state (billingAddress d)) = [] then Some (js ''State is required'')
                 else None
      | ZipCode \<Rightarrow> if trim (zipCode (billingAddress d)) = []
                   then Some (js ''ZIP code is required'') else None
      | Country \<Rightarrow> if trim (country (billingAddress d)) = []
                   then Some (js ''Country is required'') else None
      | CardNumber \<Rightarrow> if \<not> isValidCardNumber (cardNumber (paymentInfo d))
                      then Some (js ''Please enter a valid card number'') else None
      | ExpiryDate \<Rightarrow> if \<not> test_anchored expiry_regex (expiryDate (paymentInfo d))
                      then Some (js ''Please enter date as MM/YY'') else None
      | Cvv \<Rightarrow> if \<not> test_anchored cvv_regex (cvv (paymentInfo d))
               then Some (js ''CVV must be 3 or 4 digits'') else None
      | CardholderName \<Rightarrow> if trim (cardholderName (paymentInfo d)) = []
                          then Some (js ''Cardholder name is required'') else None
      | Terms \<Rightarrow> if \<not> termsAccepted d
                 then Some (js ''You must accept the terms and conditions'') else None)"
  by (cases f) (simp_all add: SinglePageOnboarding_validateForm_def Let_def flag_fst)



lemma wizard_errors_at:
  "wizard_errors now d f =
     (case f of
        FirstName \<Rightarrow> PersonalInfoStep_validateField FirstName (firstName (personalInfo d))
      | LastName \<Rightarrow> PersonalInfoStep_validateField LastName (lastName (personalInfo d))
      | Email \<Rightarrow> PersonalInfoStep_validateField Email (email (personalInfo d))
      | Password \<Rightarrow> fst (AccountSetupStep_validateForm (accountSetup d)) Password
      | ConfirmPassword \<Rightarrow> fst (AccountSetupStep_validateForm (accountSetup d)) ConfirmPassword
      | AddressLine1 \<Rightarrow> BillingAddressStep_validateField (billingAddress d) AddressLine1
                          (addressLine1 (billingAddress d))
      | AddressLine2 \<Rightarrow> None
      | City \<Rightarrow> BillingAddressStep_validateField (billingAddress d) City (city (billingAddress d))
      | State \<Rightarrow> BillingAddressStep_validateField (billingAddress d) State
                   (state (billingAddress d))
      | ZipCode \<Rightarrow> BillingAddressStep_validateField (billingAddress d) ZipCode
                     (zipCode (billingAddress d))
      | Country \<Rightarrow> BillingAddressStep_validateField (billingAddress d) Country
                     (country (billingAddress d))
      | CardNumber \<Rightarrow> PaymentInfoStep_validateField now CardNumber (cardNumber (paymentInfo d))
      | ExpiryDate \<Rightarrow> PaymentInfoStep_validateField now ExpiryDate (expiryDate (paymentInfo d))
      | Cvv \<Rightarrow> PaymentInfoStep_validateField now Cvv (cvv (paymentInfo d))
      | CardholderName \<Rightarrow> PaymentInfoStep_validateField now CardholderName
                            (cardholderName (paymentInfo d))
      | Terms \<Rightarrow> None)"
  unfolding wizard_errors_def map_add_def personal_errors billing_errors payment_errors
  by (cases f)
     (simp_all add: account_errors split: option.splits
       del: PersonalInfoStep_validateField.simps BillingAddressStep_validateField.simps
         PaymentInfoStep_validateField.simps)

lemma valid_card_nonblank: "isValidCardNumber c \<Longrightarrow> trim c \<noteq> []"
proof
  assume v: "isValidCardNumber c" and "trim c = []"
  then have "filter (\<lambda>u. \<not> isWhitespace u) c = []"
    by (simp add: trim_Nil_iff list_all_iff filter_empty_conv)
  with v show False
    by (simp add: isValidCardNumber_iff card_number_rule_def)
qed

lemma cvv_nonblank: "test_anchored cvv_regex v \<Longrightarrow> trim v \<noteq> []"
proof
  assume "test_anchored cvv_regex v" and b: "trim v = []"
  then obtain u w where "v = u @ w" "length u = 3" "list_all isDigit u"
    by (auto simp: test_anchored_def cvv_regex_def matches_Seq_iff matches_Rep_Cls)
  then obtain a r where "v = a # r" "isDigit a"
    by (cases u) auto
  with b show False
    by (auto simp: trim_Nil_iff dest: digit_not_whitespace)
qed

lemma strength_empty: "getPasswordStrength [] = 0"
  by (simp add: getPasswordStrength_def)

lemma wizard_implies_single_page:
  "f \<noteq> Terms \<Longrightarrow> wizard_errors now d f = None \<Longrightarrow>
   fst (SinglePageOnboarding_validateForm d) f = None"
  unfolding wizard_errors_at single_page_errors
  by (cases f) (auto simp: account_errors Let_def split: if_splits)

lemma agree_on:
  assumes "f \<in> {Email, Password, AddressLine2, State, Country, CardNumber, Cvv}"
  shows "wizard_errors now d f = None \<longleftrightarrow> fst (SinglePageOnboarding_validateForm d) f = None"
proof -
  from assms consider "f = Email" | "f = Password" | "f = AddressLine2" | "f = State"
    | "f = Country" | "f = CardNumber" | "f = Cvv"
    by auto
  then show ?thesis
  proof cases
    case 1
    then show ?thesis
      by (simp add: wizard_errors_at single_page_errors)
  next
    case 2
    then show ?thesis
      by (simp add: wizard_errors_at single_page_errors account_errors strength_empty)
  next
    case 3
    then show ?thesis
      by (simp add: wizard_errors_at single_page_errors)
  next
    case 4
    then show ?thesis
      by (simp add: wizard_errors_at single_page_errors)
  next
    case 5
    then show ?thesis
      by (simp add: wizard_errors_at single_page_errors)
  next
    case 6
    then show ?thesis
      using valid_card_nonblank [of "cardNumber (paymentInfo d)"]
      by (auto simp: wizard_errors_at single_page_errors)
  next
    case 7
    then show ?thesis
      using cvv_nonblank [of "cvv (paymentInfo d)"]
      by (auto simp: wizard_errors_at single_page_errors)
  qed
qed

lemma single_page_valid_iff:
  "snd (SinglePageOnboarding_validateForm d) \<longleftrightarrow>
     trim (firstName (personalInfo d)) \<noteq> [] \<and>
     trim (lastName (personalInfo d)) \<noteq> [] \<and>
     trim (email (personalInfo d)) \<noteq> [] \<and>
     test_anchored email_regex (email (personalInfo d)) \<and>
     \<not> getPasswordStrength (password (accountSetup d)) < 5 \<and>
     password (accountSetup d) = confirmPassword (accountSetup d) \<and>
     trim (addressLine1 (billingAddress d)) \<noteq> [] \<and>
     trim (city (billingAddress d)) \<noteq> [] \<and>
     trim (state (billingAddress d)) \<noteq> [] \<and>
     trim (zipCode (billingAddress d)) \<noteq> [] \<and>
     trim (country (billingAddress d)) \<noteq> [] \<and>
     isValidCardNumber (cardNumber (paymentInfo d)) \<and>
     test_anchored expiry_regex (expiryDate (paymentInfo d)) \<and>
     test_anchored cvv_regex (cvv (paymentInfo d)) \<and>
     trim (cardholderName (paymentInfo d)) \<noteq> [] \<and>
     termsAccepted d"
  by (auto simp add: SinglePageOnboarding_validateForm_def Let_def flag_snd)

lemma wizard_valid_errors:
  assumes "wizard_valid now d"
  shows "wizard_errors now d f = None"
proof -
  from assms have
    p: "list_all (\<lambda>(k, v). PersonalInfoStep_validateField k v = None)
          (PersonalInfoData_entries (personalInfo d))" and
    a: "snd (AccountSetupStep_validateForm (accountSetup d))" and
    b: "list_all (\<lambda>(k, v). BillingAddressStep_validateField (billingAddress d) k v = None)
          (BillingAddressData_required (billingAddress d))" and
    c: "list_all (\<lambda>(k, v). PaymentInfoStep_validateField now k v = None)
          (PaymentInfoData_entries (paymentInfo d))"
    by (simp_all add: wizard_valid_def PersonalInfoStep_validateForm_def
        BillingAddressStep_validateForm_def PaymentInfoStep_validateForm_def
        validate_entries_snd personal_truthy billing_truthy payment_truthy)
  from a have a': "fst (AccountSetupStep_validateForm (accountSetup d)) Password = None"
    "fst (AccountSetupStep_validateForm (accountSetup d)) ConfirmPassword = None"
    by (auto simp add: AccountSetupStep_validateForm_def Let_def flag_snd flag_fst
        split: if_splits)
  from p b c a' show ?thesis
    unfolding wizard_errors_at PersonalInfoData_entries_def BillingAddressData_required_def
      PaymentInfoData_entries_def
    by (cases f)
       (simp_all del: PersonalInfoStep_validateField.simps BillingAddressStep_validateField.simps
         PaymentInfoStep_validateField.simps)
qed

lemma field_cases:
  "(\<forall>f. f \<noteq> Terms \<longrightarrow> P f) \<longleftrightarrow>
     P FirstName \<and> P LastName \<and> P Email \<and> P Password \<and> P ConfirmPassword \<and> P AddressLine1 \<and>
     P AddressLine2 \<and> P City \<and> P State \<and> P ZipCode \<and> P Country \<and> P CardNumber \<and>
     P ExpiryDate \<and> P Cvv \<and> P CardholderName"
proof
  assume "\<forall>f. f \<noteq> Terms \<longrightarrow> P f"
  then show "P FirstName \<and> P LastName \<and> P Email \<and> P Password \<and> P ConfirmPassword \<and>
     P AddressLine1 \<and> P AddressLine2 \<and> P City \<and> P State \<and> P ZipCode \<and> P Country \<and>
     P CardNumber \<and> P ExpiryDate \<and> P Cvv \<and> P CardholderName"
    by simp
next
  assume a: "P FirstName \<and> P LastName \<and> P Email \<and> P Password \<and> P ConfirmPassword \<and>
     P AddressLine1 \<and> P AddressLine2 \<and> P City \<and> P State \<and> P ZipCode \<and> P Country \<and>
     P CardNumber \<and> P ExpiryDate \<and> P Cvv \<and> P CardholderName"
  show "\<forall>f. f \<noteq> Terms \<longrightarrow> P f"
  proof (intro allI impI)
    fix f :: field
    assume "f \<noteq> Terms"
    with a show "P f"
      by (cases f) simp_all
  qed
qed

lemma wizard_valid_single_page:
  assumes "wizard_valid now d" "termsAccepted d"
  shows "snd (SinglePageOnboarding_validateForm d)"
proof -
  have "\<forall>f. f \<noteq> Terms \<longrightarrow> fst (SinglePageOnboarding_validateForm d) f = None"
    using wizard_valid_errors [OF assms(1)] wizard_implies_single_page by blast
  then show ?thesis
    unfolding field_cases single_page_errors single_page_valid_iff using assms(2)
    by (simp split: if_splits)
qed

lemma email_regex_iff:
  "test_anchored email_regex s \<longleftrightarrow>
     (\<exists>a b c. s = a @ [of_char CHR ''@''] @ b @ [of_char CHR ''.''] @ c \<and>
        a \<noteq> [] \<and> b \<noteq> [] \<and> c \<noteq> [] \<and>
        list_all (\<lambda>u. \<not> (isWhitespace u \<or> u = of_char CHR ''@'')) (a @ b @ c))"
  unfolding test_anchored_def email_regex_def Let_def matches_Seq_iff matches_Plus_Cls
    matches_Chr_iff
  by (simp only: list_all_append) blast

lemma email_example: "test_anchored email_regex (js ''a@b.co'')"
proof -
  have "js ''a@b.co'' = js ''a'' @ [of_char CHR ''@''] @ js ''b'' @ [of_char CHR ''.''] @ js ''co''"
    by (simp add: js_def)
  moreover have "list_all (\<lambda>u. \<not> (isWhitespace u \<or> u = of_char CHR ''@''))
      (js ''a'' @ js ''b'' @ js ''co'')"
    by (simp add: js_def isWhitespace_def)
  moreover have "js ''a'' \<noteq> []" "js ''b'' \<noteq> []" "js ''co'' \<noteq> []"
    by (simp_all add: js_def)
  ultimately show ?thesis
    unfolding email_regex_iff by blast
qed

lemma cvv_regex_iff:
  "test_anchored cvv_regex v \<longleftrightarrow> (length v = 3 \<or> length v = 4) \<and> list_all isDigit v"
proof -
  have "test_anchored cvv_regex v \<longleftrightarrow>
        (\<exists>u w. v = u @ w \<and> (length u = 3 \<and> list_all isDigit u) \<and>
           ((\<exists>c. w = [c] \<and> isDigit c) \<or> w = []))"
    by (simp only: test_anchored_def cvv_regex_def matches_Seq_iff matches_Rep_Cls
        matches_Opt_iff matches_Cls_iff)
  also have "\<dots> \<longleftrightarrow> (length v = 3 \<or> length v = 4) \<and> list_all isDigit v"
  proof
    assume "\<exists>u w. v = u @ w \<and> (length u = 3 \<and> list_all isDigit u) \<and>
           ((\<exists>c. w = [c] \<and> isDigit c) \<or> w = [])"
    then show "(length v = 3 \<or> length v = 4) \<and> list_all isDigit v"
      by auto
  next
    assume a: "(length v = 3 \<or> length v = 4) \<and> list_all isDigit v"
    then have "v = take 3 v @ drop 3 v" "length (take 3 v) = 3" "list_all isDigit (take 3 v)"
      "list_all isDigit (drop 3 v)" "length (drop 3 v) = 1 \<or> drop 3 v = []"
      by (auto simp: list_all_iff dest: in_set_takeD in_set_dropD)
    moreover from this(4,5) have "(\<exists>c. drop 3 v = [c] \<and> isDigit c) \<or> drop 3 v = []"
      by (cases "drop 3 v") auto
    ultimately show "\<exists>u w. v = u @ w \<and> (length u = 3 \<and> list_all isDigit u) \<and>
           ((\<exists>c. w = [c] \<and> isDigit c) \<or> w = [])"
      by blast
  qed
  finally show ?thesis .
qed

lemma example_values:
  "trim (js ''A'') = js ''A''" "trim (js ''B'') = js ''B''" "trim (js ''Z'') = js ''Z''"
  "trim (js ''X'') = js ''X''" "trim (js ''1 St'') = js ''1 St''" "trim (js ''NY'') = js ''NY''"
  "trim (js ''abc'') = js ''abc''" "trim (js ''a@b.co'') = js ''a@b.co''"
  "trim (js ''United States'') = js ''United States''"
  "trim (js ''Ada'') = js ''Ada''" "trim (js ''Byron'') = js ''Byron''"
  "trim (js ''1 Main St'') = js ''1 Main St''" "trim (js ''NYC'') = js ''NYC''"
  "trim (js ''Ada Byron'') = js ''Ada Byron''" "trim (js ''12345'') = js ''12345''"
  "trim (js ''123'') = js ''123''" "trim (js ''13/99'') = js ''13/99''"
  "trim (js ''12/30'') = js ''12/30''"
  "trim (js ''4111111111111111'') = js ''4111111111111111''"
  by (simp_all add: trim_def js_def isWhitespace_def)

lemma example_lengths:
  "length (js ''A'') = 1" "length (js ''B'') = 1" "length (js ''Z'') = 1" "length (js ''X'') = 1"
  "length (js ''1 St'') = 4" "length (js ''Ada'') = 3" "length (js ''Byron'') = 5"
  "length (js ''1 Main St'') = 9" "length (js ''NYC'') = 3" "length (js ''Ada Byron'') = 9"
  "length (js ''NY'') = 2" "length (js ''United States'') = 13"
  "js ''A'' \<noteq> []" "js ''B'' \<noteq> []" "js ''Z'' \<noteq> []" "js ''X'' \<noteq> []" "js ''1 St'' \<noteq> []"
  "js ''NY'' \<noteq> []" "js ''abc'' \<noteq> []" "js ''a@b.co'' \<noteq> []" "js ''United States'' \<noteq> []"
  "js ''Ada'' \<noteq> []" "js ''Byron'' \<noteq> []" "js ''1 Main St'' \<noteq> []" "js ''NYC'' \<noteq> []"
  "js ''Ada Byron'' \<noteq> []" "js ''12345'' \<noteq> []" "js ''123'' \<noteq> []" "js ''13/99'' \<noteq> []"
  "js ''12/30'' \<noteq> []" "js ''4111111111111111'' \<noteq> []" "js ''Abcdef1!'' \<noteq> []"
  by (simp_all add: js_def)

lemma example_formats:
  "\<not> is_us_zip (js ''abc'')" "is_us_zip (js ''12345'')"
  "expiry_format (js ''13/99'')" "expiry_month (js ''13/99'') = 13"
  "expiry_format (js ''12/30'')" "expiry_month (js ''12/30'') = 12"
  "expiry_year (js ''12/30'') = 30"
  "test_anchored cvv_regex (js ''123'')"
  "current_year november_2026 = 26" "current_month november_2026 = 11"
  by (simp_all add: is_us_zip_def cvv_regex_iff js_def isDigit_def digit_value_def
      current_year_def current_month_def november_2026_def)

lemma example_checks:
  "getPasswordStrength (js ''Abcdef1!'') = 5"
  "isValidCardNumber (js ''4111111111111111'')"
  "test_anchored expiry_regex (js ''13/99'')"
  "test_anchored expiry_regex (js ''12/30'')"
  by (simp_all add: getPasswordStrength_count password_examples isValidCardNumber_iff
      card_number_examples expiry_regex_iff example_formats)

lemma lenient_single_page: "snd (SinglePageOnboarding_validateForm lenient_form)"
  unfolding single_page_valid_iff
  by (simp add: lenient_form_def example_values example_lengths example_checks example_formats
      email_example)

lemma lenient_wizard:
  "wizard_errors november_2026 lenient_form FirstName =
     Some (js ''First name must be at least 2 characters'')"
  "wizard_errors november_2026 lenient_form LastName =
     Some (js ''Last name must be at least 2 characters'')"
  "wizard_errors november_2026 lenient_form AddressLine1 =
     Some (js ''Please enter a complete street address'')"
  "wizard_errors november_2026 lenient_form City = Some (js ''Please enter a valid city name'')"
  "wizard_errors november_2026 lenient_form ZipCode =
     Some (js ''Please enter a valid ZIP code (12345 or 12345-6789)'')"
  "wizard_errors november_2026 lenient_form ExpiryDate = Some (js ''Invalid month'')"
  "wizard_errors november_2026 lenient_form CardholderName =
     Some (js ''Please enter the full name on the card'')"
  unfolding wizard_errors_at
  by (simp_all only: field.case zip_validator_cases expiry_validator_cases)
     (simp_all add: lenient_form_def example_values example_lengths example_formats)

lemma wizard_errors_valid:
  assumes "\<And>f. wizard_errors now d f = None"
  shows "wizard_valid now d"
proof -
  have acc: "snd (AccountSetupStep_validateForm a) \<longleftrightarrow>
      fst (AccountSetupStep_validateForm a) Password = None \<and>
      fst (AccountSetupStep_validateForm a) ConfirmPassword = None" for a
    by (auto simp add: AccountSetupStep_validateForm_def Let_def flag_snd flag_fst)
  from assms [of FirstName] assms [of LastName] assms [of Email] assms [of Password]
    assms [of ConfirmPassword] assms [of AddressLine1] assms [of City] assms [of State]
    assms [of ZipCode] assms [of Country] assms [of CardNumber] assms [of ExpiryDate]
    assms [of Cvv] assms [of CardholderName]
  show ?thesis
    unfolding wizard_errors_at wizard_valid_def PersonalInfoStep_validateForm_def
      BillingAddressStep_validateForm_def PaymentInfoStep_validateForm_def
      validate_entries_snd personal_truthy billing_truthy payment_truthy acc
      PersonalInfoData_entries_def BillingAddressData_required_def PaymentInfoData_entries_def
    by (simp del: PersonalInfoStep_validateField.simps BillingAddressStep_validateField.simps
        PaymentInfoStep_validateField.simps)
qed

lemma valid_wizard: "wizard_valid november_2026 valid_form"
proof (rule wizard_errors_valid)
  fix f
  show "wizard_errors november_2026 valid_form f = None"
    unfolding wizard_errors_at
    by (cases f; simp only: field.case zip_validator_cases expiry_validator_cases
        account_errors)
       (simp_all add: valid_form_def example_values example_lengths example_formats
        example_checks email_example strictly_before_def)
qed

lemma single_page_valid_errors:
  "snd (SinglePageOnboarding_validateForm d) \<Longrightarrow> fst (SinglePageOnboarding_validateForm d) f = None"
  unfolding single_page_valid_iff single_page_errors by (cases f) auto

lemma confirm_password_example:
  "fst (SinglePageOnboarding_validateForm
     (lenient_form\<lparr>accountSetup := \<lparr>password = [], confirmPassword = []\<rparr>\<rparr>)) ConfirmPassword = None"
  "wizard_errors november_2026
     (lenient_form\<lparr>accountSetup := \<lparr>password = [], confirmPassword = []\<rparr>\<rparr>) ConfirmPassword =
     Some (js ''Password confirmation is required'')"
  by (simp_all add: single_page_errors wizard_errors_at account_errors)

text \<open>
  C2: the single page is to accept a field value exactly when the step's validator of
  the wizard accepts it. The code does not: \<open>SinglePageOnboarding.validateForm\<close> returns
  true on the whole form \<open>lenient_form\<close>, storing no error for its one-letter first and
  last names, its four-character street, its one-letter city, its ZIP code "abc" for the
  United States, its expiry month 13 and its one-letter cardholder name, while the
  wizard's validators return an error for each of these seven fields; and it stores no
  error for an empty password confirmation that equals the password, for which the wizard
  returns the required error.
\<close>

theorem single_page_accepts_what_wizard_rejects:
  "snd (SinglePageOnboarding_validateForm lenient_form) \<and>
   \<not> wizard_valid november_2026 lenient_form \<and>
   fst (SinglePageOnboarding_validateForm lenient_form) FirstName = None \<and>
   wizard_errors november_2026 lenient_form FirstName =
     Some (js ''First name must be at least 2 characters'') \<and>
   fst (SinglePageOnboarding_validateForm lenient_form) LastName = None \<and>
   wizard_errors november_2026 lenient_form LastName =
     Some (js ''Last name must be at least 2 characters'') \<and>
   fst (SinglePageOnboarding_validateForm lenient_form) AddressLine1 = None \<and>
   wizard_errors november_2026 lenient_form AddressLine1 =
     Some (js ''Please enter a complete street address'') \<and>
   fst (SinglePageOnboarding_validateForm lenient_form) City = None \<and>
   wizard_errors november_2026 lenient_form City = Some (js ''Please enter a valid city name'') \<and>
   fst (SinglePageOnboarding_validateForm lenient_form) ZipCode = None \<and>
   wizard_errors november_2026 lenient_form ZipCode =
     Some (js ''Please enter a valid ZIP code (12345 or 12345-6789)'') \<and>
   fst (SinglePageOnboarding_validateForm lenient_form) ExpiryDate = None \<and>
   wizard_errors november_2026 lenient_form ExpiryDate = Some (js ''Invalid month'') \<and>
   fst (SinglePageOnboarding_validateForm lenient_form) CardholderName = None \<and>
   wizard_errors november_2026 lenient_form CardholderName =
     Some (js ''Please enter the full name on the card'') \<and>
   fst (SinglePageOnboarding_validateForm
     (lenient_form\<lparr>accountSetup := \<lparr>password = [], confirmPassword = []\<rparr>\<rparr>)) ConfirmPassword = None \<and>
   wizard_errors november_2026
     (lenient_form\<lparr>accountSetup := \<lparr>password = [], confirmPassword = []\<rparr>\<rparr>) ConfirmPassword =
     Some (js ''Password confirmation is required'')"
proof -
  have "\<not> wizard_valid november_2026 lenient_form"
    using wizard_valid_errors [of november_2026 lenient_form FirstName] lenient_wizard(1)
    by auto
  then show ?thesis
    by (simp add: lenient_single_page single_page_valid_errors [OF lenient_single_page]
        lenient_wizard confirm_password_example)
qed

text \<open>
  The difference goes one way only. A field value that the step's validator of the wizard
  accepts gets no error on the single page, and a form that passes the four steps with
  the terms accepted passes the single page; on email, password, addressLine2, state,
  country, cardNumber and cvv the two accept the same values.
\<close>

lemma single_page_weaker_than_wizard:
  "(f \<noteq> Terms \<and> wizard_errors now d f = None \<longrightarrow>
      fst (SinglePageOnboarding_validateForm d) f = None) \<and>
   (f \<in> {Email, Password, AddressLine2, State, Country, CardNumber, Cvv} \<longrightarrow>
      (wizard_errors now d f = None \<longleftrightarrow> fst (SinglePageOnboarding_validateForm d) f = None)) \<and>
   (wizard_valid now d \<and> termsAccepted d \<longrightarrow> snd (SinglePageOnboarding_validateForm d))"
  using wizard_implies_single_page [of f now d] agree_on [of f now d]
    wizard_valid_single_page [of now d]
  by blast

lemma single_page_weaker_than_wizard_example:
  "wizard_valid november_2026 valid_form \<and> termsAccepted valid_form \<and>
   snd (SinglePageOnboarding_validateForm valid_form) \<and>
   wizard_errors november_2026 valid_form Email = None \<and>
   fst (SinglePageOnboarding_validateForm valid_form) Email = None"
proof -
  have t: "termsAccepted valid_form"
    by (simp add: valid_form_def)
  have w: "wizard_errors november_2026 valid_form Email = None"
    using valid_wizard by (rule wizard_valid_errors)
  from valid_wizard t w single_page_weaker_than_wizard [of Email november_2026 valid_form]
  show ?thesis
    by blast
qed

end
